theory Spec2Isabelle
  imports Main "HOL-Library.Sublist" "HOL-Library.List_Lexorder" "HOL-Library.Char_ord"
begin

section \<open>Calendar bot: credential store, token lifecycle and broadcast\<close>

text \<open>
  A shallow embedding of \<^verbatim>\<open>worker/src/persistence.js\<close>, the OAuth flow manager
  (\<^verbatim>\<open>oauth.js\<close>) and the calendar client with its broadcast operations
  (\<^verbatim>\<open>calendar.js\<close>). Every asynchronous function is run to completion in
  program order; a JavaScript exception is the left injection of a sum, and the
  mutable worker state (the key-value namespace \<^verbatim>\<open>env.EVENTS\<close> and the error
  console) is passed in and returned.
\<close>

subsection \<open>Values of the runtime\<close>

text \<open>
  A \<^verbatim>\<open>Uint8Array\<close> and the binary string made from it by
  \<^verbatim>\<open>String.fromCharCode\<close> / \<^verbatim>\<open>charCodeAt\<close> hold the same octets; both are
  lists of 8-bit characters here.
\<close>

type_synonym bytes = string

datatype error = Error string

text \<open>
  The functions of the runtime that the source calls but does not define: the text
  codec, base64, AES-GCM and HMAC-SHA-256 of Web Crypto, \<^verbatim>\<open>toLowerCase\<close>,
  \<^verbatim>\<open>parseInt\<close> (\<open>None\<close> is \<^verbatim>\<open>NaN\<close>), the rendering of a number in a template
  literal, and \<^verbatim>\<open>new URLSearchParams(...).toString()\<close>.
  They are parameters of the model. \<open>atob\<close> and \<open>aes_gcm_decrypt\<close> can throw, which
  is the value \<open>None\<close>.
\<close>

record platform =
  utf8_encode :: "string \<Rightarrow> bytes"
  utf8_decode :: "bytes \<Rightarrow> string"
  btoa :: "string \<Rightarrow> string"
  atob :: "string \<Rightarrow> string option"
  aes_gcm_encrypt :: "bytes \<Rightarrow> bytes \<Rightarrow> bytes \<Rightarrow> bytes"
  aes_gcm_decrypt :: "bytes \<Rightarrow> bytes \<Rightarrow> bytes \<Rightarrow> bytes option"
  hmac_sha256 :: "bytes \<Rightarrow> bytes \<Rightarrow> bytes"
  toLowerCase :: "string \<Rightarrow> string"
  parseInt :: "string \<Rightarrow> int option"
  number_to_string :: "int option \<Rightarrow> string"
  url_search_params :: "(string \<times> string) list \<Rightarrow> string"

text \<open>The configuration part of the worker's \<^verbatim>\<open>env\<close>; an unset binding is \<open>None\<close>.\<close>

record env =
  ENCRYPTION_KEY :: "string option"
  OAUTH_STATE_SECRET :: "string option"
  GOOGLE_CLIENT_ID :: "string option"
  GOOGLE_CLIENT_SECRET :: "string option"
  WORKER_URL :: "string option"

text \<open>\<^verbatim>\<open>a || d\<close> on a string binding: \<^verbatim>\<open>undefined\<close> and the empty string are falsy.\<close>

definition or_else :: "string option \<Rightarrow> string \<Rightarrow> string" where
  "or_else a d = (case a of None \<Rightarrow> d | Some s \<Rightarrow> if s = [] then d else s)"

text \<open>A template literal renders an unset binding as the text \<^verbatim>\<open>undefined\<close>.\<close>

definition js_string :: "string option \<Rightarrow> string" where
  "js_string a = (case a of None \<Rightarrow> ''undefined'' | Some s \<Rightarrow> s)"

subsection \<open>Stored records\<close>

text \<open>
  The object literal written by \<^verbatim>\<open>storeGoogleConnection\<close>, with the two fields that
  \<^verbatim>\<open>updateConnectionAccessToken\<close> adds later (absent until then).
\<close>

record stored_connection =
  chat_id :: string
  google_sub :: string
  google_email :: string
  refresh_token_enc :: string
  scopes :: string
  revoked :: bool
  connected_by_telegram_user_id :: string
  created_at :: string
  updated_at :: string
  access_token :: "string option"
  expires_at :: "int option"

text \<open>
  What \<^verbatim>\<open>getWorkspaceConnections\<close> and \<^verbatim>\<open>getGoogleConnection\<close> hand out: the parsed
  record with \<^verbatim>\<open>refresh_token\<close> set and \<^verbatim>\<open>refresh_token_enc\<close> deleted.
\<close>

record connection =
  c_chat_id :: string
  c_google_sub :: string
  c_google_email :: string
  c_refresh_token :: string
  c_scopes :: string
  c_revoked :: bool
  c_connected_by_telegram_user_id :: string
  c_created_at :: string
  c_updated_at :: string
  c_access_token :: "string option"
  c_expires_at :: "int option"

definition as_connection :: "stored_connection \<Rightarrow> string \<Rightarrow> connection" where
  "as_connection d t =
     \<lparr> c_chat_id = chat_id d, c_google_sub = google_sub d, c_google_email = google_email d,
       c_refresh_token = t, c_scopes = scopes d, c_revoked = revoked d,
       c_connected_by_telegram_user_id = connected_by_telegram_user_id d,
       c_created_at = created_at d, c_updated_at = updated_at d,
       c_access_token = access_token d, c_expires_at = expires_at d \<rparr>"

record event_mapping =
  m_chat_id :: string
  m_bot_event_uid :: string
  m_google_sub :: string
  m_google_event_id :: string
  m_created_at :: string
  m_updated_at :: string

text \<open>The only field of an \<^verbatim>\<open>oauth_state:\<close> value that the source reads.\<close>

record oauth_state_marker =
  createdAt :: int

subsection \<open>The key-value namespace\<close>

text \<open>
  \<^verbatim>\<open>env.EVENTS\<close> maps string keys to JSON texts. The source partitions it by the
  literal key prefixes \<^verbatim>\<open>gconn:\<close>, \<^verbatim>\<open>emap:\<close> and \<^verbatim>\<open>oauth_state:\<close>, and every
  \<^verbatim>\<open>put\<close> under a prefix writes \<^verbatim>\<open>JSON.stringify\<close> of one record shape, read back
  by \<^verbatim>\<open>get(key, 'json')\<close>. The model keeps one association list per partition,
  keyed by the full key, holding the parsed record.
\<close>

type_synonym 'v table = "(string \<times> 'v) list"

definition kv_get :: "'v table \<Rightarrow> string \<Rightarrow> 'v option" where
  "kv_get t k = map_of t k"

fun kv_put :: "string \<Rightarrow> 'v \<Rightarrow> 'v table \<Rightarrow> 'v table" where
  "kv_put k v [] = [(k, v)]"
| "kv_put k v ((k', v') # t) = (if k' = k then (k, v) # t else (k', v') # kv_put k v t)"

definition kv_delete :: "string \<Rightarrow> 'v table \<Rightarrow> 'v table" where
  "kv_delete k t = filter (\<lambda>kv. fst kv \<noteq> k) t"

text \<open>The keys stored under a prefix, each once.\<close>

definition matching_keys :: "string \<Rightarrow> 'v table \<Rightarrow> string list" where
  "matching_keys p t = remdups (filter (prefix p) (map fst t))"

text \<open>
  \<^verbatim>\<open>(await env.EVENTS.list({ prefix })).keys\<close>: one page of the prefix scan, which is
  the first \<open>KV_LIST_LIMIT\<close> matching keys in the lexicographic order of their octets.
  The source calls \<^verbatim>\<open>list\<close> once per scan and reads neither \<^verbatim>\<open>list_complete\<close> nor
  \<^verbatim>\<open>cursor\<close>, so the page is all that a scan sees.
\<close>

definition KV_LIST_LIMIT :: nat where
  "KV_LIST_LIMIT = 1000"

definition kv_list :: "string \<Rightarrow> 'v table \<Rightarrow> string list" where
  "kv_list p t = take KV_LIST_LIMIT (sort (matching_keys p t))"

record state =
  gconn :: "stored_connection table"
  emap :: "event_mapping table"
  oauth_state :: "oauth_state_marker table"
  console_error :: "string list"

text \<open>\<^verbatim>\<open>console.error(msg, ...)\<close>: the first argument is appended to the console.\<close>

definition log_error :: "string \<Rightarrow> state \<Rightarrow> state" where
  "log_error msg st = st\<lparr>console_error := console_error st @ [msg]\<rparr>"

subsection \<open>Encryption utilities (persistence.js)\<close>

definition key_material :: "platform \<Rightarrow> env \<Rightarrow> bytes" where
  "key_material P e =
     take 32 (utf8_encode P (or_else (ENCRYPTION_KEY e) ''default-key-change-in-production''))"

text \<open>
  \<^verbatim>\<open>crypto.subtle.importKey('raw', k, { name: 'AES-GCM', length: 256 }, ...)\<close>: Web
  Crypto accepts raw AES key data of 128, 192 or 256 bits and throws a \<^verbatim>\<open>DataError\<close> on
  any other length. The imported key is represented by its octets.
\<close>

definition valid_aes_key :: "bytes \<Rightarrow> bool" where
  "valid_aes_key k \<longleftrightarrow> length k = 16 \<or> length k = 24 \<or> length k = 32"

definition importKey :: "bytes \<Rightarrow> error + bytes" where
  "importKey k = (if valid_aes_key k then Inr k else Inl (Error ''DataError''))"

text \<open>\<open>iv\<close> is the result of \<^verbatim>\<open>crypto.getRandomValues(new Uint8Array(12))\<close>.\<close>

definition encryptToken :: "platform \<Rightarrow> env \<Rightarrow> bytes \<Rightarrow> string \<Rightarrow> error + string" where
  "encryptToken P e iv token =
     (let data = utf8_encode P token in
      case importKey (key_material P e) of
        Inl err \<Rightarrow> Inl err
      | Inr key \<Rightarrow>
          (let encrypted = aes_gcm_encrypt P key iv data
           in Inr (btoa P (iv @ encrypted))))"

definition decryptToken :: "platform \<Rightarrow> env \<Rightarrow> string \<Rightarrow> error + string" where
  "decryptToken P e encryptedBase64 =
     (case atob P encryptedBase64 of
        None \<Rightarrow> Inl (Error ''InvalidCharacterError'')
      | Some encrypted \<Rightarrow>
          (let iv = take 12 encrypted; ciphertext = drop 12 encrypted
           in case importKey (key_material P e) of
                Inl err \<Rightarrow> Inl err
              | Inr key \<Rightarrow>
                  (case aes_gcm_decrypt P key iv ciphertext of
                     None \<Rightarrow> Inl (Error ''OperationError'')
                   | Some decrypted \<Rightarrow> Inr (utf8_decode P decrypted))))"

subsection \<open>Google connections (persistence.js)\<close>

text \<open>
  The clock and the random source of one invocation: \<^verbatim>\<open>Date.now()\<close>,
  \<^verbatim>\<open>new Date().toISOString()\<close>, \<^verbatim>\<open>crypto.getRandomValues\<close> and
  \<^verbatim>\<open>crypto.randomUUID()\<close>.
\<close>

record clock =
  now_ms :: int
  now_iso :: string
  random_iv :: bytes
  random_uuid :: string

definition gconn_key :: "string \<Rightarrow> string \<Rightarrow> string" where
  "gconn_key chatId googleSub = ''gconn:'' @ chatId @ '':'' @ googleSub"

definition gconn_prefix :: "string \<Rightarrow> string" where
  "gconn_prefix chatId = ''gconn:'' @ chatId @ '':''"

definition storeGoogleConnection ::
  "platform \<Rightarrow> env \<Rightarrow> clock \<Rightarrow> string \<Rightarrow> string \<Rightarrow> string \<Rightarrow> string \<Rightarrow> string \<Rightarrow> string
     \<Rightarrow> state \<Rightarrow> (error + unit) \<times> state" where
  "storeGoogleConnection P e ck chatId googleSub googleEmail refreshToken scopes' connectedByUserId st =
     (let key = gconn_key chatId googleSub in
      case encryptToken P e (random_iv ck) refreshToken of
        Inl err \<Rightarrow> (Inl err, st)
      | Inr encryptedRefreshToken \<Rightarrow>
          (let data = \<lparr> chat_id = chatId, google_sub = googleSub,
                        google_email = toLowerCase P googleEmail,
                        refresh_token_enc = encryptedRefreshToken, scopes = scopes',
                        revoked = False, connected_by_telegram_user_id = connectedByUserId,
                        created_at = now_iso ck, updated_at = now_iso ck,
                        access_token = None, expires_at = None \<rparr>
           in (Inr (), st\<lparr>gconn := kv_put key data (gconn st)\<rparr>)))"

fun getWorkspaceConnections_loop ::
  "platform \<Rightarrow> env \<Rightarrow> string list \<Rightarrow> connection list \<Rightarrow> state \<Rightarrow> connection list \<times> state" where
  "getWorkspaceConnections_loop P e [] connections st = (connections, st)"
| "getWorkspaceConnections_loop P e (name # keys) connections st =
     (case kv_get (gconn st) name of
        None \<Rightarrow> getWorkspaceConnections_loop P e keys connections st
      | Some data \<Rightarrow>
          if \<not> revoked data then
            (case decryptToken P e (refresh_token_enc data) of
               Inr t \<Rightarrow> getWorkspaceConnections_loop P e keys (connections @ [as_connection data t]) st
             | Inl err \<Rightarrow>
                 getWorkspaceConnections_loop P e keys connections
                   (log_error (''Failed to decrypt token for '' @ name @ '':'') st))
          else getWorkspaceConnections_loop P e keys connections st)"

definition getWorkspaceConnections ::
  "platform \<Rightarrow> env \<Rightarrow> string \<Rightarrow> state \<Rightarrow> connection list \<times> state" where
  "getWorkspaceConnections P e chatId st =
     getWorkspaceConnections_loop P e (kv_list (gconn_prefix chatId) (gconn st)) [] st"

definition getGoogleConnection ::
  "platform \<Rightarrow> env \<Rightarrow> string \<Rightarrow> string \<Rightarrow> state \<Rightarrow> connection option \<times> state" where
  "getGoogleConnection P e chatId googleSub st =
     (let key = gconn_key chatId googleSub in
      case kv_get (gconn st) key of
        None \<Rightarrow> (None, st)
      | Some data \<Rightarrow>
          if revoked data then (None, st)
          else (case decryptToken P e (refresh_token_enc data) of
                  Inr t \<Rightarrow> (Some (as_connection data t), st)
                | Inl err \<Rightarrow>
                    (None, log_error (''Failed to decrypt token for '' @ key @ '':'') st)))"

definition updateConnectionAccessToken ::
  "clock \<Rightarrow> string \<Rightarrow> string \<Rightarrow> string \<Rightarrow> int \<Rightarrow> state \<Rightarrow> (error + unit) \<times> state" where
  "updateConnectionAccessToken ck chatId googleSub accessToken expiresAt st =
     (let key = gconn_key chatId googleSub in
      case kv_get (gconn st) key of
        None \<Rightarrow> (Inl (Error (''Connection not found: '' @ key)), st)
      | Some data \<Rightarrow>
          (Inr (),
           st\<lparr>gconn :=
                kv_put key
                  (data\<lparr>access_token := Some accessToken, expires_at := Some expiresAt,
                        updated_at := now_iso ck\<rparr>)
                  (gconn st)\<rparr>))"

definition revokeGoogleConnection :: "clock \<Rightarrow> string \<Rightarrow> string \<Rightarrow> state \<Rightarrow> state" where
  "revokeGoogleConnection ck chatId googleSub st =
     (let key = gconn_key chatId googleSub in
      case kv_get (gconn st) key of
        None \<Rightarrow> st
      | Some data \<Rightarrow>
          st\<lparr>gconn := kv_put key (data\<lparr>revoked := True, updated_at := now_iso ck\<rparr>) (gconn st)\<rparr>)"

subsection \<open>Event mappings (persistence.js)\<close>

definition emap_key :: "string \<Rightarrow> string \<Rightarrow> string \<Rightarrow> string" where
  "emap_key chatId botEventUid googleSub =
     ''emap:'' @ chatId @ '':'' @ botEventUid @ '':'' @ googleSub"

definition emap_prefix :: "string \<Rightarrow> string \<Rightarrow> string" where
  "emap_prefix chatId botEventUid = ''emap:'' @ chatId @ '':'' @ botEventUid @ '':''"

definition emap_chat_prefix :: "string \<Rightarrow> string" where
  "emap_chat_prefix chatId = ''emap:'' @ chatId @ '':''"

definition storeEventMapping ::
  "clock \<Rightarrow> string \<Rightarrow> string \<Rightarrow> string \<Rightarrow> string \<Rightarrow> state \<Rightarrow> state" where
  "storeEventMapping ck chatId botEventUid googleSub googleEventId st =
     (let key = emap_key chatId botEventUid googleSub;
          data = \<lparr> m_chat_id = chatId, m_bot_event_uid = botEventUid, m_google_sub = googleSub,
                   m_google_event_id = googleEventId,
                   m_created_at = now_iso ck, m_updated_at = now_iso ck \<rparr>
      in st\<lparr>emap := kv_put key data (emap st)\<rparr>)"

text \<open>An element of the array returned by \<^verbatim>\<open>getEventMappings\<close>.\<close>

record mapping =
  mp_google_sub :: string
  mp_google_event_id :: string

fun getEventMappings_loop :: "string list \<Rightarrow> mapping list \<Rightarrow> state \<Rightarrow> mapping list" where
  "getEventMappings_loop [] mappings st = mappings"
| "getEventMappings_loop (name # keys) mappings st =
     (case kv_get (emap st) name of
        None \<Rightarrow> getEventMappings_loop keys mappings st
      | Some data \<Rightarrow>
          getEventMappings_loop keys
            (mappings @ [\<lparr> mp_google_sub = m_google_sub data,
                           mp_google_event_id = m_google_event_id data \<rparr>]) st)"

definition getEventMappings :: "string \<Rightarrow> string \<Rightarrow> state \<Rightarrow> mapping list" where
  "getEventMappings chatId botEventUid st =
     getEventMappings_loop (kv_list (emap_prefix chatId botEventUid) (emap st)) [] st"

fun deleteEventMapping_loop :: "string list \<Rightarrow> state \<Rightarrow> state" where
  "deleteEventMapping_loop [] st = st"
| "deleteEventMapping_loop (name # keys) st =
     deleteEventMapping_loop keys (st\<lparr>emap := kv_delete name (emap st)\<rparr>)"

text \<open>
  The optional parameter \<^verbatim>\<open>googleSub = null\<close>: the test \<^verbatim>\<open>if (googleSub)\<close> also
  takes the empty string to the delete-all branch.
\<close>

definition deleteEventMapping :: "string \<Rightarrow> string \<Rightarrow> string option \<Rightarrow> state \<Rightarrow> state" where
  "deleteEventMapping chatId botEventUid googleSub st =
     (if googleSub \<noteq> None \<and> googleSub \<noteq> Some [] then
        st\<lparr>emap := kv_delete (emap_key chatId botEventUid (the googleSub)) (emap st)\<rparr>
      else
        deleteEventMapping_loop (kv_list (emap_prefix chatId botEventUid) (emap st)) st)"

fun deleteEventMappingsForAccount_loop :: "string \<Rightarrow> string list \<Rightarrow> state \<Rightarrow> state" where
  "deleteEventMappingsForAccount_loop googleSub [] st = st"
| "deleteEventMappingsForAccount_loop googleSub (name # keys) st =
     (case kv_get (emap st) name of
        None \<Rightarrow> deleteEventMappingsForAccount_loop googleSub keys st
      | Some data \<Rightarrow>
          if m_google_sub data = googleSub then
            deleteEventMappingsForAccount_loop googleSub keys
              (st\<lparr>emap := kv_delete name (emap st)\<rparr>)
          else deleteEventMappingsForAccount_loop googleSub keys st)"

definition deleteEventMappingsForAccount :: "string \<Rightarrow> string \<Rightarrow> state \<Rightarrow> state" where
  "deleteEventMappingsForAccount chatId googleSub st =
     deleteEventMappingsForAccount_loop googleSub (kv_list (emap_chat_prefix chatId) (emap st)) st"


subsection \<open>Remote services\<close>

text \<open>
  The outcome of \<^verbatim>\<open>await fetch(...)\<close>: the promise rejects (a transport error, with
  its message), or it resolves to a response with a status, the body as
  \<^verbatim>\<open>response.text()\<close> gives it and the body as \<^verbatim>\<open>response.json()\<close> gives it, in
  the shape the endpoint documents.
\<close>

datatype 'a fetch_result = Rejected string | Response nat string 'a

definition ok :: "nat \<Rightarrow> bool" where
  "ok status \<longleftrightarrow> 200 \<le> status \<and> status \<le> 299"

record token_request =
  rq_code :: string
  rq_refresh_token :: string
  rq_client_id :: string
  rq_client_secret :: string
  rq_redirect_uri :: string
  rq_grant_type :: string

record token_json =
  tj_access_token :: string
  tj_refresh_token :: string
  tj_expires_in :: int
  tj_token_type :: string
  tj_scope :: string

record userinfo_json =
  ui_id :: string
  ui_email :: string

datatype event_time = EventDate "string option" | EventDateTime "string option"

record google_event =
  ge_summary :: string
  ge_start :: event_time
  ge_end :: event_time
  ge_location :: "string option"
  ge_description :: "string option"

record event_resource =
  er_id :: string
  er_summary :: string
  er_start_dateTime :: "string option"
  er_start_date :: "string option"
  er_end_dateTime :: "string option"
  er_end_date :: "string option"
  er_htmlLink :: string

text \<open>
  What Google answers to each request of one invocation: the token endpoint, the
  userinfo endpoint (by bearer token) and the three calendar writes (by bearer token,
  event id and body).
\<close>

record world =
  token_endpoint :: "token_request \<Rightarrow> token_json fetch_result"
  userinfo_endpoint :: "string \<Rightarrow> userinfo_json fetch_result"
  calendar_insert :: "string \<Rightarrow> google_event \<Rightarrow> event_resource fetch_result"
  calendar_patch :: "string \<Rightarrow> string \<Rightarrow> google_event \<Rightarrow> event_resource fetch_result"
  calendar_delete :: "string \<Rightarrow> string \<Rightarrow> unit fetch_result"

subsection \<open>OAuth flow (oauth.js)\<close>

definition hex_digit :: "nat \<Rightarrow> char" where
  "hex_digit n = ''0123456789abcdef'' ! (n mod 16)"

text \<open>\<^verbatim>\<open>b.toString(16).padStart(2, '0')\<close> for an octet \<open>b\<close>.\<close>

definition hex2 :: "char \<Rightarrow> string" where
  "hex2 b = [hex_digit (of_char b div 16), hex_digit (of_char b mod 16)]"

definition generateStateSignature :: "platform \<Rightarrow> string \<Rightarrow> string \<Rightarrow> string" where
  "generateStateSignature P payload secret =
     (let keyData = utf8_encode P secret;
          messageData = utf8_encode P payload;
          signature = hmac_sha256 P keyData messageData
      in concat (map hex2 signature))"

definition verifyStateSignature :: "platform \<Rightarrow> string \<Rightarrow> string \<Rightarrow> string \<Rightarrow> bool" where
  "verifyStateSignature P payload signature secret \<longleftrightarrow>
     signature = generateStateSignature P payload secret"

text \<open>\<^verbatim>\<open>s.split(':')\<close>.\<close>

fun split_colon :: "string \<Rightarrow> string list" where
  "split_colon [] = [[]]"
| "split_colon (c # s) =
     (if c = CHR '':'' then [] # split_colon s
      else (case split_colon s of [] \<Rightarrow> [[c]] | p # ps \<Rightarrow> (c # p) # ps))"

definition state_payload :: "string \<Rightarrow> string \<Rightarrow> string \<Rightarrow> string \<Rightarrow> string" where
  "state_payload chatId initiatedBy chatType nonce =
     chatId @ '':'' @ initiatedBy @ '':'' @ chatType @ '':'' @ nonce"

record state_data =
  sd_chatId :: "int option"
  sd_initiatedBy :: "int option"
  sd_chatType :: string
  sd_nonce :: string

definition parseAndVerifyState ::
  "platform \<Rightarrow> string \<Rightarrow> string \<Rightarrow> state \<Rightarrow> state_data option \<times> state" where
  "parseAndVerifyState P state' secret st =
     (case atob P state' of
        None \<Rightarrow> (None, log_error ''State parse error:'' st)
      | Some decoded \<Rightarrow>
          (case split_colon decoded of
             chatId # initiatedBy # chatType # nonce # signature # rest \<Rightarrow>
               (let payload = state_payload chatId initiatedBy chatType nonce in
                if \<not> verifyStateSignature P payload signature secret
                then (None, log_error ''State signature verification failed'' st)
                else (Some \<lparr> sd_chatId = parseInt P chatId,
                             sd_initiatedBy = parseInt P initiatedBy,
                             sd_chatType = chatType, sd_nonce = nonce \<rparr>, st))
           | _ \<Rightarrow> (None, st)))"

definition getGoogleUserInfo :: "world \<Rightarrow> string \<Rightarrow> error + userinfo_json" where
  "getGoogleUserInfo W accessToken =
     (case userinfo_endpoint W accessToken of
        Rejected msg \<Rightarrow> Inl (Error msg)
      | Response status text' data \<Rightarrow>
          if \<not> ok status then Inl (Error ''Failed to fetch user info'') else Inr data)"

record tokens =
  tk_access_token :: string
  tk_refresh_token :: string
  tk_expires_in :: int
  tk_token_type :: string
  tk_scope :: string
  tk_sub :: string
  tk_email :: string
  tk_expires_at :: int

text \<open>
  \<^verbatim>\<open>exchangeCodeForTokens(code, env)\<close>. Its two parameters enter through what the body
  reads from them: \<open>code\<close> as the text that \<^verbatim>\<open>URLSearchParams\<close> makes of it, and \<open>env\<close>
  through its three bindings, as text where \<^verbatim>\<open>undefined\<close> is rendered.
\<close>

definition exchangeCodeForTokens ::
  "world \<Rightarrow> clock \<Rightarrow> string \<Rightarrow> string option \<Rightarrow> string option \<Rightarrow> string option
     \<Rightarrow> error + tokens" where
  "exchangeCodeForTokens W ck code client_id client_secret worker_url =
     (let params = \<lparr> rq_code = code, rq_refresh_token = [],
                     rq_client_id = js_string client_id,
                     rq_client_secret = js_string client_secret,
                     rq_redirect_uri = js_string worker_url @ ''/oauth/callback'',
                     rq_grant_type = ''authorization_code'' \<rparr> in
      case token_endpoint W params of
        Rejected msg \<Rightarrow> Inl (Error msg)
      | Response status text' tj \<Rightarrow>
          if \<not> ok status then Inl (Error (''Token exchange failed: '' @ text'))
          else (case getGoogleUserInfo W (tj_access_token tj) of
                  Inl err \<Rightarrow> Inl err
                | Inr userInfo \<Rightarrow>
                    Inr \<lparr> tk_access_token = tj_access_token tj,
                          tk_refresh_token = tj_refresh_token tj,
                          tk_expires_in = tj_expires_in tj,
                          tk_token_type = tj_token_type tj,
                          tk_scope = tj_scope tj,
                          tk_sub = ui_id userInfo, tk_email = ui_email userInfo,
                          tk_expires_at = now_ms ck + tj_expires_in tj * 1000 \<rparr>))"

record refreshed =
  rf_access_token :: string
  rf_expires_in :: int
  rf_expires_at :: int

text \<open>The form body that \<^verbatim>\<open>refreshAccessToken\<close> posts.\<close>

definition refresh_params :: "env \<Rightarrow> string \<Rightarrow> token_request" where
  "refresh_params e refreshToken =
     \<lparr> rq_code = [], rq_refresh_token = refreshToken,
       rq_client_id = js_string (GOOGLE_CLIENT_ID e),
       rq_client_secret = js_string (GOOGLE_CLIENT_SECRET e),
       rq_redirect_uri = [],
       rq_grant_type = ''refresh_token'' \<rparr>"

definition refreshAccessToken ::
  "world \<Rightarrow> env \<Rightarrow> clock \<Rightarrow> string \<Rightarrow> state \<Rightarrow> (error + refreshed option) \<times> state" where
  "refreshAccessToken W e ck refreshToken st =
     (let params = refresh_params e refreshToken in
      case token_endpoint W params of
        Rejected msg \<Rightarrow> (Inl (Error msg), st)
      | Response status text' tj \<Rightarrow>
          if \<not> ok status then
            (let st' = log_error ''Token refresh failed:'' st in
             if status = 400 then (Inr None, st')
             else (Inl (Error (''Token refresh failed: '' @ text')), st'))
          else
            (Inr (Some \<lparr> rf_access_token = tj_access_token tj,
                         rf_expires_in = tj_expires_in tj,
                         rf_expires_at = now_ms ck + tj_expires_in tj * 1000 \<rparr>), st))"

text \<open>\<^verbatim>\<open>a || null\<close> on an optional string.\<close>

definition or_null :: "string option \<Rightarrow> string option" where
  "or_null a = (case a of None \<Rightarrow> None | Some s \<Rightarrow> if s = [] then None else Some s)"

text \<open>
  The guard \<^verbatim>\<open>connection.expires_at && now >= connection.expires_at - 60000\<close>: an
  absent \<^verbatim>\<open>expires_at\<close> and the number 0 are falsy.
\<close>

definition needs_refresh :: "clock \<Rightarrow> connection \<Rightarrow> bool" where
  "needs_refresh ck connection =
     (case c_expires_at connection of
        None \<Rightarrow> False
      | Some x \<Rightarrow> x \<noteq> 0 \<and> now_ms ck \<ge> x - 60000)"

definition getValidAccessTokenForConnection ::
  "world \<Rightarrow> env \<Rightarrow> clock \<Rightarrow> connection \<Rightarrow> state \<Rightarrow> (error + string option) \<times> state" where
  "getValidAccessTokenForConnection W e ck connection st =
     (if needs_refresh ck connection then
        (case refreshAccessToken W e ck (c_refresh_token connection) st of
           (Inl err, st1) \<Rightarrow> (Inl err, st1)
         | (Inr None, st1) \<Rightarrow>
             (Inr None,
              log_error (''Failed to refresh token for '' @ c_google_email connection) st1)
         | (Inr (Some r), st1) \<Rightarrow>
             (case updateConnectionAccessToken ck (c_chat_id connection) (c_google_sub connection)
                     (rf_access_token r) (rf_expires_at r) st1 of
                (Inl err, st2) \<Rightarrow> (Inl err, st2)
              | (Inr u, st2) \<Rightarrow> (Inr (Some (rf_access_token r)), st2)))
      else (Inr (or_null (c_access_token connection)), st))"

definition GOOGLE_AUTH_URL :: string where
  "GOOGLE_AUTH_URL = ''https://accounts.google.com/o/oauth2/v2/auth''"

definition SCOPES :: string where
  "SCOPES = ''https://www.googleapis.com/auth/calendar.events''"

definition state_secret :: "env \<Rightarrow> string" where
  "state_secret e =
     (case or_null (OAUTH_STATE_SECRET e) of
        Some s \<Rightarrow> s
      | None \<Rightarrow> or_else (ENCRYPTION_KEY e) ''change-in-production'')"

text \<open>The local \<^verbatim>\<open>state\<close> of \<^verbatim>\<open>generateOAuthUrl\<close>: the handshake token.\<close>

definition issued_state :: "platform \<Rightarrow> env \<Rightarrow> clock \<Rightarrow> string \<Rightarrow> string \<Rightarrow> string \<Rightarrow> string" where
  "issued_state P e ck chatId initiatedBy chatType =
     (let nonce = random_uuid ck;
          payload = state_payload chatId initiatedBy chatType nonce;
          signature = generateStateSignature P payload (state_secret e)
      in btoa P (payload @ '':'' @ signature))"

text \<open>
  \<^verbatim>\<open>generateOAuthUrl\<close> makes no call on \<^verbatim>\<open>env.EVENTS\<close>; the state is returned as it
  came.
\<close>

definition generateOAuthUrl ::
  "platform \<Rightarrow> env \<Rightarrow> clock \<Rightarrow> string \<Rightarrow> string \<Rightarrow> string \<Rightarrow> state \<Rightarrow> string \<times> state" where
  "generateOAuthUrl P e ck chatId initiatedBy chatType st =
     (let state' = issued_state P e ck chatId initiatedBy chatType;
          redirectUri =
            or_else (WORKER_URL e) ''https://c4lendar-worker.calendar-bot.workers.dev''
              @ ''/oauth/callback'';
          params = url_search_params P
            [(''client_id'', js_string (GOOGLE_CLIENT_ID e)),
             (''redirect_uri'', redirectUri),
             (''response_type'', ''code''),
             (''scope'', SCOPES),
             (''access_type'', ''offline''),
             (''prompt'', ''consent''),
             (''state'', state')]
      in (GOOGLE_AUTH_URL @ ''?'' @ params, st))"

record callback_result =
  cb_chatId :: "int option"
  cb_email :: string
  cb_sub :: string

text \<open>
  \<^verbatim>\<open>handleOAuthCallback\<close> calls \<^verbatim>\<open>exchangeCodeForTokens(env, code)\<close>, the arguments in
  the other order than the function declares them: the callee's \<open>code\<close> is the
  \<^verbatim>\<open>env\<close> object, which \<^verbatim>\<open>URLSearchParams\<close> renders as \<^verbatim>\<open>[object Object]\<close>, and its
  \<open>env\<close> is the code string, on which the three bindings read are \<^verbatim>\<open>undefined\<close>.
\<close>

definition handleOAuthCallback ::
  "platform \<Rightarrow> world \<Rightarrow> env \<Rightarrow> clock \<Rightarrow> string \<Rightarrow> string \<Rightarrow> state
     \<Rightarrow> (error + callback_result) \<times> state" where
  "handleOAuthCallback P W e ck code state' st =
     (case parseAndVerifyState P state' (state_secret e) st of
        (None, st1) \<Rightarrow> (Inl (Error ''Invalid or tampered authorization state''), st1)
      | (Some stateData, st1) \<Rightarrow>
          (let stateKey = ''oauth_state:'' @ state' in
           case kv_get (oauth_state st1) stateKey of
             None \<Rightarrow> (Inl (Error ''Invalid or expired authorization state''), st1)
           | Some kvStateData \<Rightarrow>
               if now_ms ck - createdAt kvStateData > 600000 then
                 (Inl (Error ''State expired''),
                  st1\<lparr>oauth_state := kv_delete stateKey (oauth_state st1)\<rparr>)
               else
                 (let st2 = st1\<lparr>oauth_state := kv_delete stateKey (oauth_state st1)\<rparr> in
                  case exchangeCodeForTokens W ck ''[object Object]'' None None None of
                    Inl err \<Rightarrow> (Inl err, st2)
                  | Inr tk \<Rightarrow>
                      (case storeGoogleConnection P e ck
                              (number_to_string P (sd_chatId stateData))
                              (tk_sub tk) (tk_email tk) (tk_refresh_token tk) (tk_scope tk)
                              (number_to_string P (sd_initiatedBy stateData)) st2 of
                         (Inl err, st3) \<Rightarrow> (Inl err, st3)
                       | (Inr u, st3) \<Rightarrow>
                           (Inr \<lparr> cb_chatId = sd_chatId stateData, cb_email = tk_email tk,
                                  cb_sub = tk_sub tk \<rparr>, st3)))))"


subsection \<open>Calendar API client (calendar.js)\<close>

text \<open>The event object of the bot; \<^verbatim>\<open>if (event.location)\<close> tests truthiness.\<close>

record event =
  ev_title :: string
  ev_allDay :: bool
  ev_startDate :: "string option"
  ev_endDate :: "string option"
  ev_start :: "string option"
  ev_end :: "string option"
  ev_location :: "string option"
  ev_notes :: "string option"

definition convertToGoogleFormat :: "event \<Rightarrow> google_event" where
  "convertToGoogleFormat ev =
     \<lparr> ge_summary = ev_title ev,
       ge_start = (if ev_allDay ev then EventDate (ev_startDate ev) else EventDateTime (ev_start ev)),
       ge_end = (if ev_allDay ev then EventDate (ev_endDate ev) else EventDateTime (ev_end ev)),
       ge_location = or_null (ev_location ev),
       ge_description = or_null (ev_notes ev) \<rparr>"

text \<open>\<^verbatim>\<open>a || b\<close> on two optional strings.\<close>

definition or_opt :: "string option \<Rightarrow> string option \<Rightarrow> string option" where
  "or_opt a b = (case or_null a of Some s \<Rightarrow> Some s | None \<Rightarrow> b)"

record write_result =
  wr_ok :: bool
  wr_eventId :: string
  wr_title :: string
  wr_start :: "string option"
  wr_end :: "string option"
  wr_link :: "string option"

definition createEvent :: "world \<Rightarrow> string \<Rightarrow> event \<Rightarrow> error + write_result" where
  "createEvent W accessToken ev =
     (case calendar_insert W accessToken (convertToGoogleFormat ev) of
        Rejected msg \<Rightarrow> Inl (Error msg)
      | Response status text' created \<Rightarrow>
          if \<not> ok status then Inl (Error (''Calendar API error: '' @ text'))
          else Inr \<lparr> wr_ok = True, wr_eventId = er_id created, wr_title = er_summary created,
                     wr_start = or_opt (er_start_dateTime created) (er_start_date created),
                     wr_end = or_opt (er_end_dateTime created) (er_end_date created),
                     wr_link = Some (er_htmlLink created) \<rparr>)"

definition updateEvent :: "world \<Rightarrow> string \<Rightarrow> string \<Rightarrow> event \<Rightarrow> error + write_result" where
  "updateEvent W accessToken eventId updates =
     (case calendar_patch W accessToken eventId (convertToGoogleFormat updates) of
        Rejected msg \<Rightarrow> Inl (Error msg)
      | Response status text' updated \<Rightarrow>
          if \<not> ok status then Inl (Error (''Calendar API error: '' @ text'))
          else Inr \<lparr> wr_ok = True, wr_eventId = er_id updated, wr_title = er_summary updated,
                     wr_start = or_opt (er_start_dateTime updated) (er_start_date updated),
                     wr_end = or_opt (er_end_dateTime updated) (er_end_date updated),
                     wr_link = None \<rparr>)"

text \<open>\<^verbatim>\<open>deleteEvent\<close> returns \<^verbatim>\<open>{ ok: true }\<close>; the value is that \<^verbatim>\<open>ok\<close>.\<close>

definition deleteEvent :: "world \<Rightarrow> string \<Rightarrow> string \<Rightarrow> error + bool" where
  "deleteEvent W accessToken eventId =
     (case calendar_delete W accessToken eventId of
        Rejected msg \<Rightarrow> Inl (Error msg)
      | Response status text' u \<Rightarrow>
          if \<not> ok status \<and> status \<noteq> 410 then Inl (Error (''Calendar API error: '' @ text'))
          else Inr True)"

subsection \<open>Workspace broadcast operations (calendar.js)\<close>

record success_entry =
  s_email :: string
  s_eventId :: "string option"
  s_link :: "string option"
  s_note :: "string option"

record failure_entry =
  f_email :: string
  f_reason :: string
  f_details :: string

record results =
  successes :: "success_entry list"
  failures :: "failure_entry list"
  totalAccounts :: nat

definition push_success :: "success_entry \<Rightarrow> results \<Rightarrow> results" where
  "push_success x r = r\<lparr>successes := successes r @ [x]\<rparr>"

definition push_failure :: "failure_entry \<Rightarrow> results \<Rightarrow> results" where
  "push_failure x r = r\<lparr>failures := failures r @ [x]\<rparr>"

text \<open>\<^verbatim>\<open>!accessToken\<close>: \<^verbatim>\<open>null\<close> and the empty string are falsy.\<close>

definition falsy :: "string option \<Rightarrow> bool" where
  "falsy a \<longleftrightarrow> or_null a = None"

text \<open>\<^verbatim>\<open>s.includes(pat)\<close>.\<close>

fun str_includes :: "string \<Rightarrow> string \<Rightarrow> bool" where
  "str_includes [] pat \<longleftrightarrow> pat = []"
| "str_includes (c # s) pat \<longleftrightarrow> prefix pat (c # s) \<or> str_includes s pat"

text \<open>The body of the loop of \<^verbatim>\<open>broadcastCreateEvent\<close>, for one connection.\<close>

definition broadcastCreateEvent_step ::
  "world \<Rightarrow> env \<Rightarrow> clock \<Rightarrow> string \<Rightarrow> string \<Rightarrow> event \<Rightarrow> connection
     \<Rightarrow> results \<times> state \<Rightarrow> results \<times> state" where
  "broadcastCreateEvent_step W e ck chatId botEventUid ev conn rs =
     (let caught = (\<lambda>msg st'.
            (push_failure \<lparr> f_email = c_google_email conn, f_reason = ''Exception'',
                            f_details = msg \<rparr> (fst rs),
             log_error (''Failed to create event for '' @ c_google_email conn @ '':'') st')) in
      case getValidAccessTokenForConnection W e ck conn (snd rs) of
        (Inl (Error msg), st1) \<Rightarrow> caught msg st1
      | (Inr accessToken, st1) \<Rightarrow>
          if falsy accessToken then
            (push_failure \<lparr> f_email = c_google_email conn, f_reason = ''Token refresh failed'',
                            f_details = ''Please reconnect this account'' \<rparr> (fst rs), st1)
          else
            (case createEvent W (the accessToken) ev of
               Inl (Error msg) \<Rightarrow> caught msg st1
             | Inr result \<Rightarrow>
                 if wr_ok result then
                   (push_success \<lparr> s_email = c_google_email conn,
                                   s_eventId = Some (wr_eventId result),
                                   s_link = wr_link result, s_note = None \<rparr> (fst rs),
                    storeEventMapping ck chatId botEventUid (c_google_sub conn)
                      (wr_eventId result) st1)
                 else
                   (push_failure \<lparr> f_email = c_google_email conn, f_reason = ''Creation failed'',
                                   f_details = ''Unknown error'' \<rparr> (fst rs), st1)))"

fun broadcastCreateEvent_loop ::
  "world \<Rightarrow> env \<Rightarrow> clock \<Rightarrow> string \<Rightarrow> string \<Rightarrow> event \<Rightarrow> connection list
     \<Rightarrow> results \<times> state \<Rightarrow> results \<times> state" where
  "broadcastCreateEvent_loop W e ck chatId botEventUid ev [] rs = rs"
| "broadcastCreateEvent_loop W e ck chatId botEventUid ev (conn # connections) rs =
     broadcastCreateEvent_loop W e ck chatId botEventUid ev connections
       (broadcastCreateEvent_step W e ck chatId botEventUid ev conn rs)"

definition broadcastCreateEvent ::
  "platform \<Rightarrow> world \<Rightarrow> env \<Rightarrow> clock \<Rightarrow> string \<Rightarrow> string \<Rightarrow> event \<Rightarrow> state
     \<Rightarrow> (error + results) \<times> state" where
  "broadcastCreateEvent P W e ck chatId botEventUid ev st =
     (case getWorkspaceConnections P e chatId st of
        (connections, st0) \<Rightarrow>
          if length connections = 0 then
            (Inl (Error ''No Google accounts connected to this workspace''), st0)
          else
            (case broadcastCreateEvent_loop W e ck chatId botEventUid ev connections
                    (\<lparr> successes = [], failures = [], totalAccounts = length connections \<rparr>, st0) of
               (r, st') \<Rightarrow> (Inr r, st')))"

text \<open>The body of the loop of \<^verbatim>\<open>broadcastUpdateEvent\<close>, for one mapping.\<close>

definition broadcastUpdateEvent_step ::
  "platform \<Rightarrow> world \<Rightarrow> env \<Rightarrow> clock \<Rightarrow> string \<Rightarrow> string \<Rightarrow> event \<Rightarrow> mapping
     \<Rightarrow> results \<times> state \<Rightarrow> results \<times> state" where
  "broadcastUpdateEvent_step P W e ck chatId botEventUid updates mp rs =
     (let caught = (\<lambda>msg st'.
            (push_failure \<lparr> f_email = ''('' @ mp_google_sub mp @ '')'', f_reason = ''Exception'',
                            f_details = msg \<rparr> (fst rs),
             log_error (''Failed to update event for mapping '' @ mp_google_sub mp @ '':'') st'));
          disconnected = (\<lambda>st'.
            (push_failure \<lparr> f_email = ''(disconnected: '' @ mp_google_sub mp @ '')'',
                            f_reason = ''Account disconnected'',
                            f_details = ''Connection no longer active'' \<rparr> (fst rs), st')) in
      case getGoogleConnection P e chatId (mp_google_sub mp) (snd rs) of
        (None, st0) \<Rightarrow> disconnected st0
      | (Some conn, st0) \<Rightarrow>
          if c_revoked conn then disconnected st0
          else
            (case getValidAccessTokenForConnection W e ck conn st0 of
               (Inl (Error msg), st1) \<Rightarrow> caught msg st1
             | (Inr accessToken, st1) \<Rightarrow>
                 if falsy accessToken then
                   (push_failure \<lparr> f_email = c_google_email conn,
                                   f_reason = ''Token refresh failed'',
                                   f_details = ''Please reconnect this account'' \<rparr> (fst rs), st1)
                 else
                   (case updateEvent W (the accessToken) (mp_google_event_id mp) updates of
                      Inl (Error msg) \<Rightarrow> caught msg st1
                    | Inr result \<Rightarrow>
                        if wr_ok result then
                          (push_success \<lparr> s_email = c_google_email conn,
                                          s_eventId = Some (mp_google_event_id mp),
                                          s_link = None, s_note = None \<rparr> (fst rs), st1)
                        else
                          (push_failure \<lparr> f_email = c_google_email conn,
                                          f_reason = ''Update failed'',
                                          f_details = ''Unknown error'' \<rparr> (fst rs), st1))))"

fun broadcastUpdateEvent_loop ::
  "platform \<Rightarrow> world \<Rightarrow> env \<Rightarrow> clock \<Rightarrow> string \<Rightarrow> string \<Rightarrow> event \<Rightarrow> mapping list
     \<Rightarrow> results \<times> state \<Rightarrow> results \<times> state" where
  "broadcastUpdateEvent_loop P W e ck chatId botEventUid updates [] rs = rs"
| "broadcastUpdateEvent_loop P W e ck chatId botEventUid updates (mp # mappings) rs =
     broadcastUpdateEvent_loop P W e ck chatId botEventUid updates mappings
       (broadcastUpdateEvent_step P W e ck chatId botEventUid updates mp rs)"


text \<open>The body of the loop of \<^verbatim>\<open>broadcastDeleteEvent\<close>, for one mapping.\<close>

definition broadcastDeleteEvent_step ::
  "platform \<Rightarrow> world \<Rightarrow> env \<Rightarrow> clock \<Rightarrow> string \<Rightarrow> string \<Rightarrow> mapping
     \<Rightarrow> results \<times> state \<Rightarrow> results \<times> state" where
  "broadcastDeleteEvent_step P W e ck chatId botEventUid mp rs =
     (let caught = (\<lambda>msg st'.
            (let st'' = log_error (''Failed to delete event for mapping '' @ mp_google_sub mp @ '':'') st' in
             if str_includes msg ''404'' \<or> str_includes msg ''410'' then
               (push_success \<lparr> s_email = ''('' @ mp_google_sub mp @ '')'', s_eventId = None,
                               s_link = None, s_note = Some ''Already deleted'' \<rparr> (fst rs),
                deleteEventMapping chatId botEventUid (Some (mp_google_sub mp)) st'')
             else
               (push_failure \<lparr> f_email = ''('' @ mp_google_sub mp @ '')'', f_reason = ''Exception'',
                               f_details = msg \<rparr> (fst rs), st'')));
          disconnected = (\<lambda>st'.
            (push_success \<lparr> s_email = ''(disconnected: '' @ mp_google_sub mp @ '')'',
                            s_eventId = None, s_link = None,
                            s_note = Some ''Mapping removed (account disconnected)'' \<rparr> (fst rs),
             deleteEventMapping chatId botEventUid (Some (mp_google_sub mp)) st')) in
      case getGoogleConnection P e chatId (mp_google_sub mp) (snd rs) of
        (None, st0) \<Rightarrow> disconnected st0
      | (Some conn, st0) \<Rightarrow>
          if c_revoked conn then disconnected st0
          else
            (case getValidAccessTokenForConnection W e ck conn st0 of
               (Inl (Error msg), st1) \<Rightarrow> caught msg st1
             | (Inr accessToken, st1) \<Rightarrow>
                 if falsy accessToken then
                   (push_failure \<lparr> f_email = c_google_email conn,
                                   f_reason = ''Token refresh failed'',
                                   f_details = ''Mapping will remain until reconnected'' \<rparr> (fst rs),
                    st1)
                 else
                   (case deleteEvent W (the accessToken) (mp_google_event_id mp) of
                      Inl (Error msg) \<Rightarrow> caught msg st1
                    | Inr result_ok \<Rightarrow>
                        if result_ok then
                          (push_success \<lparr> s_email = c_google_email conn,
                                          s_eventId = Some (mp_google_event_id mp),
                                          s_link = None, s_note = None \<rparr> (fst rs),
                           deleteEventMapping chatId botEventUid (Some (mp_google_sub mp)) st1)
                        else
                          (push_failure \<lparr> f_email = c_google_email conn,
                                          f_reason = ''Deletion failed'',
                                          f_details = ''Unknown error'' \<rparr> (fst rs), st1))))"

fun broadcastDeleteEvent_loop ::
  "platform \<Rightarrow> world \<Rightarrow> env \<Rightarrow> clock \<Rightarrow> string \<Rightarrow> string \<Rightarrow> mapping list
     \<Rightarrow> results \<times> state \<Rightarrow> results \<times> state" where
  "broadcastDeleteEvent_loop P W e ck chatId botEventUid [] rs = rs"
| "broadcastDeleteEvent_loop P W e ck chatId botEventUid (mp # mappings) rs =
     broadcastDeleteEvent_loop P W e ck chatId botEventUid mappings
       (broadcastDeleteEvent_step P W e ck chatId botEventUid mp rs)"

definition broadcastDeleteEvent ::
  "platform \<Rightarrow> world \<Rightarrow> env \<Rightarrow> clock \<Rightarrow> string \<Rightarrow> string \<Rightarrow> state
     \<Rightarrow> (error + results) \<times> state" where
  "broadcastDeleteEvent P W e ck chatId botEventUid st =
     (let mappings = getEventMappings chatId botEventUid st in
      if length mappings = 0 then
        (Inl (Error ''Event not found or already deleted''), st)
      else
        (case broadcastDeleteEvent_loop P W e ck chatId botEventUid mappings
                (\<lparr> successes = [], failures = [], totalAccounts = length mappings \<rparr>, st) of
           (r, st') \<Rightarrow> (Inr r, st')))"


subsection \<open>Specification-level notions\<close>

text \<open>
  The contract of the authenticated cipher: decryption under a key and nonce accepts
  exactly the ciphertexts that encryption under that key and nonce produces, and
  returns the plaintext. The contract of base64: decoding inverts encoding.
  Separation is the idealisation that two encryptions coincide only when key, nonce and
  plaintext do (for AES keys and the 12-octet nonces the source draws).
\<close>

definition aead_contract :: "platform \<Rightarrow> bool" where
  "aead_contract P \<longleftrightarrow>
     (\<forall>k iv m c. aes_gcm_decrypt P k iv c = Some m \<longleftrightarrow> c = aes_gcm_encrypt P k iv m)"

definition base64_contract :: "platform \<Rightarrow> bool" where
  "base64_contract P \<longleftrightarrow> (\<forall>b. atob P (btoa P b) = Some b)"


text \<open>
  Listing active connections, in the words of the specification: every stored record of
  the workspace that is not revoked and whose refresh credential decrypts, with the
  credential decrypted.
\<close>

definition active_connection_at :: "platform \<Rightarrow> env \<Rightarrow> state \<Rightarrow> string \<Rightarrow> connection option" where
  "active_connection_at P e st k =
     (case kv_get (gconn st) k of
        None \<Rightarrow> None
      | Some d \<Rightarrow>
          if revoked d then None
          else (case decryptToken P e (refresh_token_enc d) of
                  Inl err \<Rightarrow> None
                | Inr t \<Rightarrow> Some (as_connection d t)))"

definition decryption_fails_at :: "platform \<Rightarrow> env \<Rightarrow> state \<Rightarrow> string \<Rightarrow> bool" where
  "decryption_fails_at P e st k =
     (case kv_get (gconn st) k of
        None \<Rightarrow> False
      | Some d \<Rightarrow> \<not> revoked d \<and> isl (decryptToken P e (refresh_token_enc d)))"

definition listActiveConnections_spec :: "platform \<Rightarrow> env \<Rightarrow> string \<Rightarrow> state \<Rightarrow> connection list" where
  "listActiveConnections_spec P e chatId st =
     List.map_filter (active_connection_at P e st) (kv_list (gconn_prefix chatId) (gconn st))"

text \<open>
  The keys that the cascade for account \<open>X\<close> in workspace \<open>chatId\<close> is to remove: those
  of the workspace whose mapping references \<open>X\<close>.
\<close>

definition cascade_target :: "string \<Rightarrow> string \<Rightarrow> state \<Rightarrow> string \<Rightarrow> bool" where
  "cascade_target chatId X st k \<longleftrightarrow>
     prefix (emap_chat_prefix chatId) k \<and>
     (case kv_get (emap st) k of None \<Rightarrow> False | Some d \<Rightarrow> m_google_sub d = X)"

definition to_mapping :: "event_mapping \<Rightarrow> mapping" where
  "to_mapping d = \<lparr> mp_google_sub = m_google_sub d, mp_google_event_id = m_google_event_id d \<rparr>"

subsection \<open>A concrete platform and workspace\<close>

text \<open>
  Closed instances below run on this platform: identity codecs, and a cipher whose
  ciphertext is the length of the key, the key, the nonce and the plaintext. It satisfies
  the three contracts.
\<close>

definition test_platform :: platform where
  "test_platform =
     \<lparr> utf8_encode = (\<lambda>s. s), utf8_decode = (\<lambda>b. b),
       btoa = (\<lambda>s. s), atob = (\<lambda>s. Some s),
       aes_gcm_encrypt = (\<lambda>k iv m. char_of (length k) # k @ iv @ m),
       aes_gcm_decrypt = (\<lambda>k iv c.
         if prefix (char_of (length k) # k @ iv) c
         then Some (drop (Suc (length k + length iv)) c) else None),
       hmac_sha256 = (\<lambda>k m. k @ m),
       toLowerCase = (\<lambda>s. s),
       parseInt = (\<lambda>s. if s = ''1'' then Some 1 else if s = ''7'' then Some 7 else None),
       number_to_string = (\<lambda>n. if n = Some 1 then ''1'' else if n = Some 7 then ''7'' else ''NaN''),
       url_search_params = (\<lambda>kvs. concat (map (\<lambda>kv. fst kv @ ''='' @ snd kv @ ''&'') kvs)) \<rparr>"

definition test_env :: env where
  "test_env =
     \<lparr> ENCRYPTION_KEY = Some ''0123456789abcdef'', OAUTH_STATE_SECRET = Some ''s'',
       GOOGLE_CLIENT_ID = Some ''id'', GOOGLE_CLIENT_SECRET = Some ''cs'',
       WORKER_URL = None \<rparr>"

definition test_clock :: clock where
  "test_clock =
     \<lparr> now_ms = 1000000, now_iso = ''T1'', random_iv = ''123456789012'', random_uuid = ''u'' \<rparr>"

definition test_token_json :: token_json where
  "test_token_json =
     \<lparr> tj_access_token = ''fresh'', tj_refresh_token = ''RN'', tj_expires_in = 3600,
       tj_token_type = ''Bearer'', tj_scope = ''sc'' \<rparr>"

definition test_event_resource :: event_resource where
  "test_event_resource =
     \<lparr> er_id = ''g1'', er_summary = ''t'', er_start_dateTime = Some ''a'', er_start_date = None,
       er_end_dateTime = Some ''b'', er_end_date = None, er_htmlLink = ''l'' \<rparr>"

text \<open>
  The token endpoint accepts the refresh credential \<^verbatim>\<open>RA\<close>, rejects \<^verbatim>\<open>RB\<close> with status
  400 and answers 500 to any other; a delete of the event \<^verbatim>\<open>gone\<close> is answered 404
  with the body \<^verbatim>\<open>Not Found\<close>.
\<close>

definition test_world :: world where
  "test_world =
     \<lparr> token_endpoint = (\<lambda>rq.
         if rq_refresh_token rq = ''RA'' then Response 200 [] test_token_json
         else if rq_refresh_token rq = ''RB'' then Response 400 ''invalid_grant'' test_token_json
         else Response 500 ''backend error'' test_token_json),
       userinfo_endpoint = (\<lambda>t. Response 200 [] \<lparr> ui_id = ''A'', ui_email = ''a@x'' \<rparr>),
       calendar_insert = (\<lambda>t ev. Response 200 [] test_event_resource),
       calendar_patch = (\<lambda>t i ev. Response 200 [] test_event_resource),
       calendar_delete = (\<lambda>t i.
         if i = ''gone'' then Response 404 ''Not Found'' () else Response 204 [] ()) \<rparr>"

definition test_event :: event where
  "test_event =
     \<lparr> ev_title = ''t'', ev_allDay = False, ev_startDate = None, ev_endDate = None,
       ev_start = Some ''a'', ev_end = Some ''b'', ev_location = None, ev_notes = None \<rparr>"

text \<open>
  What \<open>encryptToken\<close> stores for a credential under the key of \<open>test_env\<close> and the
  nonce of \<open>test_clock\<close>.
\<close>

definition test_ciphertext :: "string \<Rightarrow> string" where
  "test_ciphertext t =
     ''123456789012'' @ aes_gcm_encrypt test_platform ''0123456789abcdef'' ''123456789012'' t"

text \<open>
  Stored connections of workspace \<^verbatim>\<open>1\<close>: \<open>A\<close> with a valid cached credential, \<open>B\<close>
  whose cached credential has expired, and \<open>C\<close> whose stored ciphertext is not an
  encryption under the key.
\<close>

definition test_connection :: "string \<Rightarrow> string \<Rightarrow> string option \<Rightarrow> int option \<Rightarrow> stored_connection" where
  "test_connection sub enc tok exp =
     \<lparr> chat_id = ''1'', google_sub = sub, google_email = sub @ ''@x'',
       refresh_token_enc = enc, scopes = ''sc'', revoked = False,
       connected_by_telegram_user_id = ''7'', created_at = ''T0'', updated_at = ''T0'',
       access_token = tok, expires_at = exp \<rparr>"

definition conn_A :: stored_connection where
  "conn_A = test_connection ''A'' (test_ciphertext ''RA'') (Some ''tokA'') (Some 5000000)"

definition conn_B :: stored_connection where
  "conn_B = test_connection ''B'' (test_ciphertext ''RB'') (Some ''tokB'') (Some 1000)"

definition conn_C :: stored_connection where
  "conn_C = test_connection ''C'' ''123456789012tampered'' (Some ''tokC'') (Some 5000000)"

definition test_mapping :: "string \<Rightarrow> string \<Rightarrow> string \<Rightarrow> event_mapping" where
  "test_mapping uid sub gid =
     \<lparr> m_chat_id = ''1'', m_bot_event_uid = uid, m_google_sub = sub, m_google_event_id = gid,
       m_created_at = ''T0'', m_updated_at = ''T0'' \<rparr>"

definition test_state :: state where
  "test_state =
     \<lparr> gconn = [(''gconn:1:A'', conn_A), (''gconn:1:C'', conn_C), (''gconn:1:B'', conn_B)],
       emap = [(''emap:1:EVT-1:A'', test_mapping ''EVT-1'' ''A'' ''g1''),
               (''emap:1:EVT-1:B'', test_mapping ''EVT-1'' ''B'' ''g2''),
               (''emap:1:EVT-2:A'', test_mapping ''EVT-2'' ''A'' ''gone'')],
       oauth_state = [],
       console_error = [] \<rparr>"

text \<open>
  A workspace whose scans exceed one page. Under \<^verbatim>\<open>gconn:1:\<close> it holds 1000 revoked
  connections of the accounts \<^verbatim>\<open>a\<close>, \<^verbatim>\<open>aa\<close>, \<^verbatim>\<open>aaa\<close>, ... and the active connection of
  the account \<^verbatim>\<open>z\<close>; under \<^verbatim>\<open>emap:1:\<close> it holds the mappings of 1000 events \<^verbatim>\<open>a\<close>,
  \<^verbatim>\<open>aa\<close>, ... to the account \<^verbatim>\<open>B\<close> and the mapping of the event \<^verbatim>\<open>z1\<close> to the
  account \<^verbatim>\<open>z\<close>. In key order the keys of \<^verbatim>\<open>z\<close> come last.
\<close>

definition filler :: "nat \<Rightarrow> string" where
  "filler i = replicate (Suc i) CHR ''a''"

definition conn_z :: stored_connection where
  "conn_z = test_connection ''z'' (test_ciphertext ''RA'') None None"

definition crowded_state :: state where
  "crowded_state =
     \<lparr> gconn =
         map (\<lambda>i. (gconn_key ''1'' (filler i),
                    (test_connection (filler i) (test_ciphertext ''RB'') None None)\<lparr>revoked := True\<rparr>))
             [0..<1000]
         @ [(gconn_key ''1'' ''z'', conn_z)],
       emap =
         map (\<lambda>i. (emap_key ''1'' (filler i) ''B'', test_mapping (filler i) ''B'' ''g''))
             [0..<1000]
         @ [(emap_key ''1'' ''z1'' ''z'', test_mapping ''z1'' ''z'' ''gz'')],
       oauth_state = [],
       console_error = [] \<rparr>"

section \<open>Properties\<close>

subsection \<open>The key-value operations\<close>

lemma kv_get_put: "kv_get (kv_put k v t) k' = (if k' = k then Some v else kv_get t k')"
  by (induction t) (auto simp: kv_get_def)

lemma keys_kv_put:
  "map fst (kv_put k v t) = (if k \<in> fst ` set t then map fst t else map fst t @ [k])"
  by (induction t) force+

lemma kv_get_delete: "kv_get (kv_delete k t) k' = (if k' = k then None else kv_get t k')"
  by (induction t) (auto simp: kv_get_def kv_delete_def)

lemma kv_get_None_iff: "kv_get t k = None \<longleftrightarrow> k \<notin> fst ` set t"
  by (simp add: kv_get_def map_of_eq_None_iff)


lemma kv_list_put_existing:
  "kv_get t k = Some old \<Longrightarrow> kv_list p (kv_put k v t) = kv_list p t"
  using kv_get_None_iff [of t k] by (simp add: kv_list_def matching_keys_def keys_kv_put)


lemma set_matching_keys: "set (matching_keys p t) = {k. prefix p k \<and> kv_get t k \<noteq> None}"
  by (auto simp: matching_keys_def kv_get_None_iff)

lemma set_kv_list_subset: "set (kv_list p t) \<subseteq> {k. prefix p k \<and> kv_get t k \<noteq> None}"
  using set_take_subset [of KV_LIST_LIMIT "sort (matching_keys p t)"]
  by (simp add: kv_list_def set_matching_keys)

lemma kv_list_one_page:
  "length (matching_keys p t) \<le> KV_LIST_LIMIT \<Longrightarrow> kv_list p t = sort (matching_keys p t)"
  by (simp add: kv_list_def)

lemma matching_keys_filter_keys:
  "matching_keys p (filter (\<lambda>kv. Q (fst kv)) t) = filter Q (matching_keys p t)"
proof -
  have "map fst (filter (\<lambda>kv. Q (fst kv)) t) = filter Q (map fst t)"
    by (induction t) auto
  then show ?thesis
    by (simp add: matching_keys_def remdups_filter conj_commute)
qed

lemma kv_list_filter_keys:
  assumes "length (matching_keys p t) \<le> KV_LIST_LIMIT"
  shows "kv_list p (filter (\<lambda>kv. Q (fst kv)) t) = filter Q (kv_list p t)"
proof -
  have "length (filter Q (matching_keys p t)) \<le> KV_LIST_LIMIT"
    using assms length_filter_le [of Q "matching_keys p t"] by linarith
  then show ?thesis
    using assms by (simp add: kv_list_def matching_keys_filter_keys filter_sort)
qed

lemma kv_get_filter_keys:
  "kv_get (filter (\<lambda>kv. Q (fst kv)) t) k = (if Q k then kv_get t k else None)"
  by (induction t) (auto simp: kv_get_def)


lemma append_less_cancel: "ps @ xs < ps @ ys \<longleftrightarrow> xs < (ys :: string)"
  by (induction ps) auto



subsection \<open>The concrete platform\<close>

lemma test_platform_aead: "aead_contract test_platform"
  by (auto simp: aead_contract_def test_platform_def prefix_def)

lemma test_platform_base64: "base64_contract test_platform"
  by (simp add: base64_contract_def test_platform_def)


lemma test_key_material: "key_material test_platform test_env = ''0123456789abcdef''"
  by (simp add: key_material_def test_platform_def test_env_def or_else_def)

lemma test_importKey: "importKey (key_material test_platform test_env) = Inr ''0123456789abcdef''"
  by (simp add: test_key_material importKey_def valid_aes_key_def)

lemma test_encrypt:
  "encryptToken test_platform test_env ''123456789012'' t = Inr (test_ciphertext t)"
  by (simp add: encryptToken_def test_importKey test_ciphertext_def) (simp add: test_platform_def)

lemma test_decrypt: "decryptToken test_platform test_env (test_ciphertext t) = Inr t"
proof -
  have "atob test_platform (test_ciphertext t) = Some (test_ciphertext t)"
    by (simp add: test_platform_def)
  moreover have "take 12 (test_ciphertext t) = ''123456789012''"
    and "drop 12 (test_ciphertext t) =
           aes_gcm_encrypt test_platform ''0123456789abcdef'' ''123456789012'' t"
    by (simp_all add: test_ciphertext_def)
  moreover have "aes_gcm_decrypt test_platform ''0123456789abcdef'' ''123456789012''
                   (aes_gcm_encrypt test_platform ''0123456789abcdef'' ''123456789012'' t) = Some t"
    using test_platform_aead by (simp add: aead_contract_def)
  moreover have "utf8_decode test_platform t = t"
    by (simp add: test_platform_def)
  ultimately show ?thesis
    by (simp add: decryptToken_def test_importKey)
qed


lemma test_gconn_get:
  "kv_get (gconn test_state) ''gconn:1:A'' = Some conn_A"
  "kv_get (gconn test_state) ''gconn:1:B'' = Some conn_B"
  "kv_get (gconn test_state) ''gconn:1:C'' = Some conn_C"
  by (simp_all add: test_state_def kv_get_def)


lemma test_conn_fields:
  "refresh_token_enc conn_A = test_ciphertext ''RA''" "\<not> revoked conn_A"
  "refresh_token_enc conn_B = test_ciphertext ''RB''" "\<not> revoked conn_B"
  "refresh_token_enc conn_C = ''123456789012tampered''" "\<not> revoked conn_C"
  by (simp_all add: conn_A_def conn_B_def conn_C_def test_connection_def)


subsection \<open>Listing and cascade\<close>

lemma active_connection_at_Some_iff:
  "active_connection_at P e st k = Some c \<longleftrightarrow>
     (\<exists>d t. kv_get (gconn st) k = Some d \<and> \<not> revoked d \<and>
            decryptToken P e (refresh_token_enc d) = Inr t \<and> c = as_connection d t)"
  by (auto simp: active_connection_at_def split: option.splits sum.splits)

lemma set_map_filter: "set (List.map_filter f xs) = {y. \<exists>x \<in> set xs. f x = Some y}"
  by (induction xs) (auto simp: List.map_filter_simps split: option.splits)

lemma active_connection_at_log [simp]:
  "active_connection_at P e (log_error m st) = active_connection_at P e st"
  by (simp add: active_connection_at_def log_error_def fun_eq_iff)

lemma decryption_fails_at_log [simp]:
  "decryption_fails_at P e (log_error m st) = decryption_fails_at P e st"
  by (simp add: decryption_fails_at_def log_error_def fun_eq_iff)

lemma getWorkspaceConnections_loop_eq:
  "getWorkspaceConnections_loop P e keys acc st =
     (acc @ List.map_filter (active_connection_at P e st) keys,
      st\<lparr>console_error := console_error st @
            map (\<lambda>k. ''Failed to decrypt token for '' @ k @ '':'')
                (filter (decryption_fails_at P e st) keys)\<rparr>)"
proof (induction keys arbitrary: acc st)
  case Nil
  show ?case by (simp add: List.map_filter_simps)
next
  case (Cons name keys)
  show ?case
    by (cases "kv_get (gconn st) name")
       (auto simp: Cons.IH List.map_filter_simps active_connection_at_def
                   decryption_fails_at_def log_error_def
             split: sum.splits)
qed

lemma filter_kv_delete: "filter Q (kv_delete k t) = filter (\<lambda>kv. fst kv \<noteq> k \<and> Q kv) t"
  by (simp add: kv_delete_def conj_commute)

lemma deleteEventMappingsForAccount_loop_emap:
  "emap (deleteEventMappingsForAccount_loop X keys st) =
     filter (\<lambda>kv. \<not> (fst kv \<in> set keys \<and>
                       (\<exists>d. kv_get (emap st) (fst kv) = Some d \<and> m_google_sub d = X)))
            (emap st)"
proof (induction keys arbitrary: st)
  case Nil
  show ?case by simp
next
  case (Cons name keys)
  show ?case
  proof (cases "kv_get (emap st) name")
    case None
    then show ?thesis
      by (auto simp: Cons.IH intro!: filter_cong)
  next
    case (Some data)
    show ?thesis
    proof (cases "m_google_sub data = X")
      case False
      with Some show ?thesis
        by (auto simp: Cons.IH intro!: filter_cong)
    next
      case True
      with Some show ?thesis
        by (auto simp: Cons.IH filter_kv_delete kv_get_delete intro!: filter_cong)
    qed
  qed
qed

lemma deleteEventMappingsForAccount_loop_frame:
  "gconn (deleteEventMappingsForAccount_loop X keys st) = gconn st
   \<and> oauth_state (deleteEventMappingsForAccount_loop X keys st) = oauth_state st
   \<and> console_error (deleteEventMappingsForAccount_loop X keys st) = console_error st"
  by (induction keys arbitrary: st) (auto split: option.splits)

lemma set_kv_list_one_page:
  assumes "length (matching_keys p t) \<le> KV_LIST_LIMIT"
  shows "set (kv_list p t) = {k. prefix p k \<and> kv_get t k \<noteq> None}"
  by (simp add: kv_list_one_page [OF assms] set_matching_keys)

lemma matching_keys_longer_prefix:
  assumes "prefix p p'"
  shows "matching_keys p' t = filter (prefix p') (matching_keys p t)"
proof -
  have "prefix p k \<and> prefix p' k \<longleftrightarrow> prefix p' k" for k
    using assms by (auto simp: prefix_def)
  then show ?thesis
    by (simp add: matching_keys_def remdups_filter [symmetric])
qed

lemma matching_keys_longer_prefix_length:
  assumes "prefix p p'"
  shows "length (matching_keys p' t) \<le> length (matching_keys p t)"
  by (simp add: matching_keys_longer_prefix [OF assms])

text \<open>
  What \<open>getWorkspaceConnections\<close> returns, relative to the page that the scan reads: for
  each key of the page whose record is not revoked and decrypts, the record with
  \<open>refresh_token\<close> set to the decrypted text.
\<close>

lemma getWorkspaceConnections_page:
  "fst (getWorkspaceConnections P e chatId st) = listActiveConnections_spec P e chatId st
   \<and> set (fst (getWorkspaceConnections P e chatId st)) =
       {c. \<exists>k d. k \<in> set (kv_list (gconn_prefix chatId) (gconn st)) \<and>
                 kv_get (gconn st) k = Some d \<and> \<not> revoked d \<and>
                 decryptToken P e (refresh_token_enc d) = Inr (c_refresh_token c) \<and>
                 c = as_connection d (c_refresh_token c)}
   \<and> snd (getWorkspaceConnections P e chatId st) =
       st\<lparr>console_error := console_error st @
             map (\<lambda>k. ''Failed to decrypt token for '' @ k @ '':'')
                 (filter (decryption_fails_at P e st) (kv_list (gconn_prefix chatId) (gconn st)))\<rparr>"
proof -
  have rt: "c_refresh_token (as_connection d t) = t" for d t
    by (simp add: as_connection_def)
  have "set (List.map_filter (active_connection_at P e st) ks) =
       {c. \<exists>k d. k \<in> set ks \<and> kv_get (gconn st) k = Some d \<and> \<not> revoked d \<and>
                 decryptToken P e (refresh_token_enc d) = Inr (c_refresh_token c) \<and>
                 c = as_connection d (c_refresh_token c)}" for ks
    unfolding set_map_filter active_connection_at_Some_iff
    by (rule set_eqI) (auto simp: rt)
  then show ?thesis
    by (simp add: getWorkspaceConnections_def getWorkspaceConnections_loop_eq
          listActiveConnections_spec_def)
qed


lemma deleteEventMappingsForAccount_emap:
  assumes "length (matching_keys (emap_chat_prefix chatId) (emap st)) \<le> KV_LIST_LIMIT"
  shows "emap (deleteEventMappingsForAccount chatId X st) =
     filter (\<lambda>kv. \<not> cascade_target chatId X st (fst kv)) (emap st)"
  unfolding deleteEventMappingsForAccount_def deleteEventMappingsForAccount_loop_emap
  by (rule filter_cong)
     (auto simp: set_kv_list_one_page [OF assms] cascade_target_def split: option.splits)

lemma getEventMappings_loop_eq:
  "getEventMappings_loop keys acc st =
     acc @ List.map_filter (\<lambda>k. map_option to_mapping (kv_get (emap st) k)) keys"
  by (induction keys arbitrary: acc) (auto simp: List.map_filter_simps to_mapping_def split: option.splits)

lemma map_filter_after_cascade:
  assumes "\<And>k. k \<in> set ks \<Longrightarrow>
             (T k \<longleftrightarrow> (case kv_get t k of None \<Rightarrow> False | Some d \<Rightarrow> m_google_sub d = X))"
  shows "List.map_filter (\<lambda>k. map_option to_mapping (kv_get (filter (\<lambda>kv. \<not> T (fst kv)) t) k))
           (filter (\<lambda>k. \<not> T k) ks)
       = filter (\<lambda>m. mp_google_sub m \<noteq> X)
           (List.map_filter (\<lambda>k. map_option to_mapping (kv_get t k)) ks)"
  using assms
  by (induction ks)
     (auto simp: List.map_filter_simps kv_get_filter_keys [where Q = "\<lambda>k. \<not> T k"] to_mapping_def
           split: option.splits)

lemma emap_prefix_extends: "prefix (emap_prefix chatId uid) k \<Longrightarrow> prefix (emap_chat_prefix chatId) k"
  by (auto simp: emap_prefix_def emap_chat_prefix_def prefix_def)

lemma revoke_frame: "emap (revokeGoogleConnection ck chatId X st) = emap st"
  by (simp add: revokeGoogleConnection_def Let_def split: option.splits)

text \<open>
  When the mappings of the workspace fit into one page of the scan, revoke and cascade
  remove exactly the mappings of \<open>X\<close>.
\<close>

lemma cascade_complete_within_page:
  assumes fit: "length (matching_keys (emap_chat_prefix chatId) (emap st)) \<le> KV_LIST_LIMIT"
  shows "getEventMappings chatId uid
           (deleteEventMappingsForAccount chatId X (revokeGoogleConnection ck chatId X st)) =
           filter (\<lambda>m. mp_google_sub m \<noteq> X) (getEventMappings chatId uid st)
       \<and> (\<forall>k. kv_get (emap (deleteEventMappingsForAccount chatId X
                               (revokeGoogleConnection ck chatId X st))) k =
               (if cascade_target chatId X st k then None else kv_get (emap st) k))"
proof -
  define st1 where "st1 = revokeGoogleConnection ck chatId X st"
  define st2 where "st2 = deleteEventMappingsForAccount chatId X st1"
  have e1: "emap st1 = emap st" by (simp add: st1_def revoke_frame)
  have tgt: "cascade_target chatId X st1 = cascade_target chatId X st"
    by (simp add: cascade_target_def e1 fun_eq_iff)
  have e2: "emap st2 = filter (\<lambda>kv. \<not> cascade_target chatId X st (fst kv)) (emap st)"
    using fit by (simp add: st2_def deleteEventMappingsForAccount_emap tgt e1)
  have pp: "prefix (emap_chat_prefix chatId) (emap_prefix chatId uid)"
    by (simp add: emap_prefix_def emap_chat_prefix_def)
  have fit': "length (matching_keys (emap_prefix chatId uid) (emap st)) \<le> KV_LIST_LIMIT"
    using fit matching_keys_longer_prefix_length [OF pp, of "emap st"] by linarith
  have A: "getEventMappings chatId uid st2 =
              filter (\<lambda>m. mp_google_sub m \<noteq> X) (getEventMappings chatId uid st)"
  proof -
    have "List.map_filter (\<lambda>k. map_option to_mapping
              (kv_get (filter (\<lambda>kv. \<not> cascade_target chatId X st (fst kv)) (emap st)) k))
            (filter (\<lambda>k. \<not> cascade_target chatId X st k) (kv_list (emap_prefix chatId uid) (emap st)))
        = filter (\<lambda>m. mp_google_sub m \<noteq> X)
            (List.map_filter (\<lambda>k. map_option to_mapping (kv_get (emap st) k))
               (kv_list (emap_prefix chatId uid) (emap st)))"
      by (rule map_filter_after_cascade)
         (auto simp: set_kv_list_one_page [OF fit'] cascade_target_def emap_prefix_extends)
    then show ?thesis
      by (simp add: getEventMappings_def getEventMappings_loop_eq e2
            kv_list_filter_keys [OF fit', where Q = "\<lambda>k. \<not> cascade_target chatId X st k"])
  qed
  have C: "kv_get (emap st2) k = (if cascade_target chatId X st k then None else kv_get (emap st) k)" for k
    by (simp add: e2 kv_get_filter_keys [where Q = "\<lambda>k. \<not> cascade_target chatId X st k"])
  show ?thesis
    using A C by (simp add: st1_def st2_def)
qed

subsection \<open>Token refresh and the broadcast loops\<close>

lemma refreshAccessToken_rejected:
  assumes "token_endpoint W (refresh_params e rt) = Response 400 text' tj"
  shows "refreshAccessToken W e ck rt st = (Inr None, log_error ''Token refresh failed:'' st)"
  using assms by (simp add: refreshAccessToken_def Let_def ok_def)

lemma refreshAccessToken_error:
  assumes "token_endpoint W (refresh_params e rt) = Response status text' tj"
      and "\<not> ok status" and "status \<noteq> 400"
  shows "refreshAccessToken W e ck rt st =
           (Inl (Error (''Token refresh failed: '' @ text')), log_error ''Token refresh failed:'' st)"
  using assms by (simp add: refreshAccessToken_def Let_def)

lemma refreshAccessToken_ok:
  assumes "token_endpoint W (refresh_params e rt) = Response status text' tj" and "ok status"
  shows "refreshAccessToken W e ck rt st =
           (Inr (Some \<lparr> rf_access_token = tj_access_token tj, rf_expires_in = tj_expires_in tj,
                        rf_expires_at = now_ms ck + tj_expires_in tj * 1000 \<rparr>), st)"
  using assms by (simp add: refreshAccessToken_def Let_def)

lemma getValidAccessToken_rejected:
  assumes "needs_refresh ck conn"
      and "token_endpoint W (refresh_params e (c_refresh_token conn)) = Response 400 text' tj"
  shows "getValidAccessTokenForConnection W e ck conn st =
           (Inr None,
            log_error (''Failed to refresh token for '' @ c_google_email conn)
              (log_error ''Token refresh failed:'' st))"
  using assms
  by (simp add: getValidAccessTokenForConnection_def refreshAccessToken_rejected [OF assms(2)])

lemma getValidAccessToken_error:
  assumes "needs_refresh ck conn"
      and "token_endpoint W (refresh_params e (c_refresh_token conn)) = Response status text' tj"
      and "\<not> ok status" and "status \<noteq> 400"
  shows "getValidAccessTokenForConnection W e ck conn st =
           (Inl (Error (''Token refresh failed: '' @ text')), log_error ''Token refresh failed:'' st)"
  using assms(1)
  by (simp add: getValidAccessTokenForConnection_def refreshAccessToken_error [OF assms(2-4)])

lemma getValidAccessToken_no_expiry:
  assumes "c_expires_at conn = None"
  shows "getValidAccessTokenForConnection W e ck conn st = (Inr (or_null (c_access_token conn)), st)"
  using assms by (simp add: getValidAccessTokenForConnection_def needs_refresh_def)

lemma getGoogleConnection_Some:
  assumes "getGoogleConnection P e chatId sub st = (Some conn, st0)"
  shows "st0 = st \<and> \<not> c_revoked conn"
  using assms
  by (auto simp: getGoogleConnection_def Let_def as_connection_def
           split: option.splits if_splits sum.splits)







subsection \<open>The concrete workspace\<close>


lemma test_getGoogleConnection_A:
  "getGoogleConnection test_platform test_env ''1'' ''A'' test_state =
     (Some (as_connection conn_A ''RA''), test_state)"
  by (simp add: getGoogleConnection_def gconn_key_def test_gconn_get test_conn_fields test_decrypt)

lemma test_getGoogleConnection_B:
  "getGoogleConnection test_platform test_env ''1'' ''B'' test_state =
     (Some (as_connection conn_B ''RB''), test_state)"
  by (simp add: getGoogleConnection_def gconn_key_def test_gconn_get test_conn_fields test_decrypt)

lemma test_needs_refresh_B: "needs_refresh test_clock (as_connection conn_B t)"
  by (simp add: needs_refresh_def as_connection_def conn_B_def test_connection_def test_clock_def)

lemma test_needs_refresh_A: "\<not> needs_refresh test_clock (as_connection conn_A t)"
  by (simp add: needs_refresh_def as_connection_def conn_A_def test_connection_def test_clock_def)

lemma test_token_endpoint:
  "token_endpoint test_world (refresh_params test_env ''RA'') = Response 200 [] test_token_json"
  "token_endpoint test_world (refresh_params test_env ''RB'') = Response 400 ''invalid_grant'' test_token_json"
  "token_endpoint test_world (refresh_params test_env ''RX'') = Response 500 ''backend error'' test_token_json"
  by (simp_all add: test_world_def refresh_params_def)

lemma test_getEventMappings:
  "getEventMappings ''1'' ''EVT-1'' test_state =
     [\<lparr> mp_google_sub = ''A'', mp_google_event_id = ''g1'' \<rparr>,
      \<lparr> mp_google_sub = ''B'', mp_google_event_id = ''g2'' \<rparr>]"
  "getEventMappings ''1'' ''EVT-2'' test_state =
     [\<lparr> mp_google_sub = ''A'', mp_google_event_id = ''gone'' \<rparr>]"
  "getEventMappings ''1'' ''EVT-9'' test_state = []"
  by (simp_all add: getEventMappings_def kv_list_def matching_keys_def KV_LIST_LIMIT_def
        emap_prefix_def test_state_def kv_get_def test_mapping_def)

lemma getEventMappings_emap_cong:
  "emap st' = emap st \<Longrightarrow> getEventMappings chatId uid st' = getEventMappings chatId uid st"
  by (simp add: getEventMappings_def getEventMappings_loop_eq)

lemma test_access_token_A:
  "getValidAccessTokenForConnection test_world test_env test_clock (as_connection conn_A ''RA'') st =
     (Inr (Some ''tokA''), st)"
  using test_needs_refresh_A [of "''RA''"]
  by (simp add: getValidAccessTokenForConnection_def or_null_def)
     (simp add: as_connection_def conn_A_def test_connection_def)

subsection \<open>The handshake state\<close>

lemma hex_digit_not_colon: "hex_digit n \<noteq> CHR '':''"
proof -
  have "n mod 16 < length ''0123456789abcdef''" by simp
  then have "hex_digit n \<in> set ''0123456789abcdef''"
    unfolding hex_digit_def by (rule nth_mem)
  then show ?thesis by auto
qed

lemma signature_no_colon: "CHR '':'' \<notin> set (generateStateSignature P payload secret)"
  by (auto simp: generateStateSignature_def Let_def hex2_def hex_digit_not_colon
           dest: sym [of "CHR '':''"])

lemma split_colon_no_colon: "CHR '':'' \<notin> set s \<Longrightarrow> split_colon s = [s]"
  by (induction s) auto

lemma split_colon_append:
  "CHR '':'' \<notin> set a \<Longrightarrow> split_colon (a @ CHR '':'' # b) = a # split_colon b"
  by (induction a) auto

lemma parseAndVerifyState_frame:
  "gconn (snd (parseAndVerifyState P s secret st)) = gconn st
   \<and> emap (snd (parseAndVerifyState P s secret st)) = emap st
   \<and> oauth_state (snd (parseAndVerifyState P s secret st)) = oauth_state st"
  by (simp add: parseAndVerifyState_def Let_def log_error_def split: option.splits list.splits)

lemma parseAndVerifyState_issued:
  assumes "base64_contract P"
      and "CHR '':'' \<notin> set chatId" and "CHR '':'' \<notin> set initiatedBy"
      and "CHR '':'' \<notin> set chatType" and "CHR '':'' \<notin> set (random_uuid ck)"
  shows "parseAndVerifyState P (issued_state P e ck chatId initiatedBy chatType) (state_secret e) st =
           (Some \<lparr> sd_chatId = parseInt P chatId, sd_initiatedBy = parseInt P initiatedBy,
                    sd_chatType = chatType, sd_nonce = random_uuid ck \<rparr>, st)"
proof -
  let ?payload = "state_payload chatId initiatedBy chatType (random_uuid ck)"
  let ?sig = "generateStateSignature P ?payload (state_secret e)"
  have dec: "atob P (issued_state P e ck chatId initiatedBy chatType) = Some (?payload @ CHR '':'' # ?sig)"
    using assms(1) by (simp add: issued_state_def Let_def base64_contract_def)
  have sp: "split_colon (?payload @ CHR '':'' # ?sig) =
              [chatId, initiatedBy, chatType, random_uuid ck, ?sig]"
    using assms(2-5) signature_no_colon [of P ?payload "state_secret e"]
    by (simp add: state_payload_def split_colon_append split_colon_no_colon)
  show ?thesis
    by (simp add: parseAndVerifyState_def dec sp verifyStateSignature_def Let_def)
qed

text \<open>A state without its marker is refused, whatever its signature.\<close>

lemma handleOAuthCallback_no_marker:
  assumes "kv_get (oauth_state st) (''oauth_state:'' @ s) = None"
  shows "\<exists>msg st'. handleOAuthCallback P W e ck code s st = (Inl (Error msg), st')"
proof (cases "parseAndVerifyState P s (state_secret e) st")
  case (Pair sd st1)
  have "oauth_state st1 = oauth_state st"
    using parseAndVerifyState_frame [of P s "state_secret e" st] Pair by simp
  with assms Pair show ?thesis
    by (cases sd) (simp_all add: handleOAuthCallback_def Let_def)
qed

text \<open>After a verification that succeeded, the same state is refused.\<close>

lemma handleOAuthCallback_consumes_marker:
  assumes "handleOAuthCallback P W e ck code s st = (Inr res, st')"
  shows "kv_get (oauth_state st') (''oauth_state:'' @ s) = None"
proof (cases "parseAndVerifyState P s (state_secret e) st")
  case (Pair sd st1)
  with assms show ?thesis
    by (cases sd)
       (auto simp: handleOAuthCallback_def Let_def storeGoogleConnection_def kv_get_delete
             split: option.splits if_splits sum.splits prod.splits)
qed

lemma handleOAuthCallback_replay_fails:
  assumes "handleOAuthCallback P W e ck code s st = (Inr res, st')"
  shows "\<exists>msg st''. handleOAuthCallback P W' e ck' code' s st' = (Inl (Error msg), st'')"
  using handleOAuthCallback_no_marker [OF handleOAuthCallback_consumes_marker [OF assms]] .

subsection \<open>Refresh on expiry\<close>

lemma getValidAccessToken_refreshes:
  assumes "needs_refresh ck conn"
      and "token_endpoint W (refresh_params e (c_refresh_token conn)) = Response status text' tj"
      and "ok status"
      and "kv_get (gconn st) (gconn_key (c_chat_id conn) (c_google_sub conn)) = Some d"
  shows "\<exists>st' d'. getValidAccessTokenForConnection W e ck conn st = (Inr (Some (tj_access_token tj)), st')
           \<and> kv_get (gconn st') (gconn_key (c_chat_id conn) (c_google_sub conn)) = Some d'
           \<and> access_token d' = Some (tj_access_token tj)
           \<and> expires_at d' = Some (now_ms ck + tj_expires_in tj * 1000)"
  using assms(1,4)
  by (simp add: getValidAccessTokenForConnection_def refreshAccessToken_ok [OF assms(2,3)]
        updateConnectionAccessToken_def Let_def kv_get_put)

subsection \<open>Deleting a remote event\<close>

lemma deleteEvent_gone:
  "calendar_delete W t i = Response 410 text' u \<Longrightarrow> deleteEvent W t i = Inr True"
  by (simp add: deleteEvent_def)

lemma deleteEvent_not_found:
  "calendar_delete W t i = Response 404 text' u \<Longrightarrow>
     deleteEvent W t i = Inl (Error (''Calendar API error: '' @ text'))"
  by (simp add: deleteEvent_def ok_def)

text \<open>\<open>str_includes\<close> is the test for a contiguous substring.\<close>

lemma str_includes_iff_sublist: "str_includes s pat \<longleftrightarrow> sublist pat s"
proof (induction s)
  case Nil
  show ?case by simp
next
  case (Cons c s)
  then show ?case
    by (cases pat) (auto simp: sublist_Cons_right)
qed

text \<open>
  One mapping of a delete broadcast whose remote delete is answered 404: the outcome is
  decided by the text of the body.
\<close>

lemma broadcastDeleteEvent_step_not_found:
  assumes "getGoogleConnection P e chatId (mp_google_sub mp) st = (Some conn, st)"
      and "getValidAccessTokenForConnection W e ck conn st = (Inr (Some tok), st1)"
      and "tok \<noteq> []"
      and "calendar_delete W tok (mp_google_event_id mp) = Response 404 body u"
  shows "broadcastDeleteEvent_step P W e ck chatId uid mp (r, st) =
           (let msg = ''Calendar API error: '' @ body;
                st2 = log_error (''Failed to delete event for mapping '' @ mp_google_sub mp @ '':'') st1
            in if str_includes msg ''404'' \<or> str_includes msg ''410'' then
                 (push_success \<lparr> s_email = ''('' @ mp_google_sub mp @ '')'', s_eventId = None,
                                 s_link = None, s_note = Some ''Already deleted'' \<rparr> r,
                  deleteEventMapping chatId uid (Some (mp_google_sub mp)) st2)
               else
                 (push_failure \<lparr> f_email = ''('' @ mp_google_sub mp @ '')'', f_reason = ''Exception'',
                                 f_details = msg \<rparr> r, st2))"
  using getGoogleConnection_Some [OF assms(1)] assms(3)
  by (simp add: broadcastDeleteEvent_step_def assms(1,2) deleteEvent_not_found [OF assms(4)]
        falsy_def or_null_def Let_def)

lemma broadcastDeleteEvent_step_gone:
  assumes "getGoogleConnection P e chatId (mp_google_sub mp) st = (Some conn, st)"
      and "getValidAccessTokenForConnection W e ck conn st = (Inr (Some tok), st1)"
      and "tok \<noteq> []"
      and "calendar_delete W tok (mp_google_event_id mp) = Response 410 body u"
  shows "broadcastDeleteEvent_step P W e ck chatId uid mp (r, st) =
           (push_success \<lparr> s_email = c_google_email conn, s_eventId = Some (mp_google_event_id mp),
                           s_link = None, s_note = None \<rparr> r,
            deleteEventMapping chatId uid (Some (mp_google_sub mp)) st1)"
  using getGoogleConnection_Some [OF assms(1)] assms(3)
  by (simp add: broadcastDeleteEvent_step_def assms(1,2) deleteEvent_gone [OF assms(4)]
        falsy_def or_null_def Let_def)

subsection \<open>A workspace whose keys fill more than one page\<close>


lemma filler_less_z: "p @ filler i @ u < p @ CHR ''z'' # v"
  by (simp only: append_less_cancel) (simp add: filler_def)





lemma gconn_key_filler_less_z: "gconn_key ''1'' (filler i) < gconn_key ''1'' ''z''"
  using filler_less_z [of "''gconn:1:''" i "[]" "[]"] by (simp add: gconn_key_def)










lemma kv_get_last:
  assumes "k \<notin> fst ` set t"
  shows "kv_get (t @ [(k, v)]) k = Some v"
  using assms by (simp add: kv_get_def map_add_def map_of_eq_None_iff [symmetric])

lemma crowded_gconn_get_z: "kv_get (gconn crowded_state) (gconn_key ''1'' ''z'') = Some conn_z"
proof -
  have "gconn_key ''1'' ''z'' \<noteq> gconn_key ''1'' (filler i)" for i
    using gconn_key_filler_less_z [of i] by simp
  then show ?thesis
    unfolding crowded_state_def by (simp add: kv_get_last image_iff)
qed






lemma crowded_active_z:
  "active_connection_at test_platform test_env crowded_state (gconn_key ''1'' ''z'') =
     Some (as_connection conn_z ''RA'')"
  by (simp add: active_connection_at_def crowded_gconn_get_z)
     (simp add: conn_z_def test_connection_def test_decrypt)




subsection \<open>A rejected refresh is a per-account failure\<close>

text \<open>
  Claim C1. When a refresh is attempted for a connection and the token endpoint answers
  with status 400, \<open>getValidAccessTokenForConnection\<close> returns \<^verbatim>\<open>null\<close> and does not
  raise; each of the three broadcast loops then records a failure with the reason
  \<^verbatim>\<open>Token refresh failed\<close> for that account and goes on with the remaining accounts. When
  the endpoint answers with another error status, \<open>getValidAccessTokenForConnection\<close>
  raises.
\<close>

theorem refresh_rejection_isolated:
  assumes nr: "needs_refresh ck conn"
      and ep: "token_endpoint W (refresh_params e (c_refresh_token conn)) = Response status text' tj"
  shows "(status = 400 \<longrightarrow>
            getValidAccessTokenForConnection W e ck conn st =
              (Inr None,
               log_error (''Failed to refresh token for '' @ c_google_email conn)
                 (log_error ''Token refresh failed:'' st))
          \<and> broadcastCreateEvent_loop W e ck chatId uid ev (conn # cs) (r, st) =
              broadcastCreateEvent_loop W e ck chatId uid ev cs
                (push_failure \<lparr> f_email = c_google_email conn, f_reason = ''Token refresh failed'',
                                 f_details = ''Please reconnect this account'' \<rparr> r,
                 log_error (''Failed to refresh token for '' @ c_google_email conn)
                   (log_error ''Token refresh failed:'' st))
          \<and> (getGoogleConnection P e chatId (mp_google_sub mp) st = (Some conn, st) \<longrightarrow>
                broadcastUpdateEvent_loop P W e ck chatId uid ev (mp # ms) (r, st) =
                  broadcastUpdateEvent_loop P W e ck chatId uid ev ms
                    (push_failure \<lparr> f_email = c_google_email conn, f_reason = ''Token refresh failed'',
                                     f_details = ''Please reconnect this account'' \<rparr> r,
                     log_error (''Failed to refresh token for '' @ c_google_email conn)
                       (log_error ''Token refresh failed:'' st))
              \<and> broadcastDeleteEvent_loop P W e ck chatId uid (mp # ms) (r, st) =
                  broadcastDeleteEvent_loop P W e ck chatId uid ms
                    (push_failure \<lparr> f_email = c_google_email conn, f_reason = ''Token refresh failed'',
                                     f_details = ''Mapping will remain until reconnected'' \<rparr> r,
                     log_error (''Failed to refresh token for '' @ c_google_email conn)
                       (log_error ''Token refresh failed:'' st))))
       \<and> (\<not> ok status \<and> status \<noteq> 400 \<longrightarrow>
            (\<exists>st'. getValidAccessTokenForConnection W e ck conn st =
                     (Inl (Error (''Token refresh failed: '' @ text')), st')))"
proof -
  have A: "getValidAccessTokenForConnection W e ck conn st =
              (Inr None,
               log_error (''Failed to refresh token for '' @ c_google_email conn)
                 (log_error ''Token refresh failed:'' st))" if "status = 400"
    using getValidAccessToken_rejected [OF nr] ep that by simp
  have B: "broadcastCreateEvent_loop W e ck chatId uid ev (conn # cs) (r, st) =
              broadcastCreateEvent_loop W e ck chatId uid ev cs
                (push_failure \<lparr> f_email = c_google_email conn, f_reason = ''Token refresh failed'',
                                 f_details = ''Please reconnect this account'' \<rparr> r,
                 log_error (''Failed to refresh token for '' @ c_google_email conn)
                   (log_error ''Token refresh failed:'' st))" if "status = 400"
    by (simp add: broadcastCreateEvent_step_def A [OF that] falsy_def or_null_def)
  have C: "broadcastUpdateEvent_loop P W e ck chatId uid ev (mp # ms) (r, st) =
                  broadcastUpdateEvent_loop P W e ck chatId uid ev ms
                    (push_failure \<lparr> f_email = c_google_email conn, f_reason = ''Token refresh failed'',
                                     f_details = ''Please reconnect this account'' \<rparr> r,
                     log_error (''Failed to refresh token for '' @ c_google_email conn)
                       (log_error ''Token refresh failed:'' st))"
    if "status = 400" and g: "getGoogleConnection P e chatId (mp_google_sub mp) st = (Some conn, st)"
    using getGoogleConnection_Some [OF g]
    by (simp add: broadcastUpdateEvent_step_def g A [OF that(1)] falsy_def or_null_def)
  have D: "broadcastDeleteEvent_loop P W e ck chatId uid (mp # ms) (r, st) =
                  broadcastDeleteEvent_loop P W e ck chatId uid ms
                    (push_failure \<lparr> f_email = c_google_email conn, f_reason = ''Token refresh failed'',
                                     f_details = ''Mapping will remain until reconnected'' \<rparr> r,
                     log_error (''Failed to refresh token for '' @ c_google_email conn)
                       (log_error ''Token refresh failed:'' st))"
    if "status = 400" and g: "getGoogleConnection P e chatId (mp_google_sub mp) st = (Some conn, st)"
    using getGoogleConnection_Some [OF g]
    by (simp add: broadcastDeleteEvent_step_def g A [OF that(1)] falsy_def or_null_def)
  have E: "\<exists>st'. getValidAccessTokenForConnection W e ck conn st =
                     (Inl (Error (''Token refresh failed: '' @ text')), st')"
    if "\<not> ok status" "status \<noteq> 400"
    using getValidAccessToken_error [OF nr ep that] by blast
  from A B C D E show ?thesis by blast
qed

theorem refresh_rejection_isolated_witness:
  "needs_refresh test_clock (as_connection conn_B ''RB'')
   \<and> token_endpoint test_world (refresh_params test_env (c_refresh_token (as_connection conn_B ''RB'')))
       = Response 400 ''invalid_grant'' test_token_json
   \<and> getGoogleConnection test_platform test_env ''1''
        (mp_google_sub \<lparr> mp_google_sub = ''B'', mp_google_event_id = ''g2'' \<rparr>) test_state
       = (Some (as_connection conn_B ''RB''), test_state)
   \<and> fst (getValidAccessTokenForConnection test_world test_env test_clock
             (as_connection conn_B ''RB'') test_state) = Inr None
   \<and> fst (broadcastCreateEvent_loop test_world test_env test_clock ''1'' ''EVT-9'' test_event
        [as_connection conn_B ''RB'', as_connection conn_A ''RA'']
        (\<lparr> successes = [], failures = [], totalAccounts = 2 \<rparr>, test_state)) =
       \<lparr> successes = [\<lparr> s_email = ''A@x'', s_eventId = Some ''g1'', s_link = Some ''l'',
                          s_note = None \<rparr>],
         failures = [\<lparr> f_email = ''B@x'', f_reason = ''Token refresh failed'',
                         f_details = ''Please reconnect this account'' \<rparr>],
         totalAccounts = 2 \<rparr>
   \<and> failures (fst (broadcastDeleteEvent_loop test_platform test_world test_env test_clock ''1'' ''EVT-1''
        [\<lparr> mp_google_sub = ''B'', mp_google_event_id = ''g2'' \<rparr>]
        (\<lparr> successes = [], failures = [], totalAccounts = 1 \<rparr>, test_state))) =
       [\<lparr> f_email = ''B@x'', f_reason = ''Token refresh failed'',
          f_details = ''Mapping will remain until reconnected'' \<rparr>]
   \<and> needs_refresh test_clock (as_connection conn_B ''RX'')
   \<and> token_endpoint test_world (refresh_params test_env (c_refresh_token (as_connection conn_B ''RX'')))
       = Response 500 ''backend error'' test_token_json
   \<and> fst (getValidAccessTokenForConnection test_world test_env test_clock
             (as_connection conn_B ''RX'') test_state) = Inl (Error ''Token refresh failed: backend error'')"
proof -
  have rt: "c_refresh_token (as_connection conn_B t) = t" for t
    by (simp add: as_connection_def)
  have em: "c_google_email (as_connection conn_B t) = ''B@x''" for t
    by (simp add: as_connection_def conn_B_def test_connection_def)
  have h1: "token_endpoint test_world (refresh_params test_env (c_refresh_token (as_connection conn_B ''RB'')))
       = Response 400 ''invalid_grant'' test_token_json"
    by (simp add: rt test_token_endpoint)
  have h2: "token_endpoint test_world (refresh_params test_env (c_refresh_token (as_connection conn_B ''RX'')))
       = Response 500 ''backend error'' test_token_json"
    by (simp add: rt test_token_endpoint)
  have g: "getGoogleConnection test_platform test_env ''1''
        (mp_google_sub \<lparr> mp_google_sub = ''B'', mp_google_event_id = ''g2'' \<rparr>) test_state
       = (Some (as_connection conn_B ''RB''), test_state)"
    by (simp add: test_getGoogleConnection_B)
  note T = refresh_rejection_isolated [OF test_needs_refresh_B h1,
      where st = test_state and chatId = "''1''" and ev = test_event and ms = "[]"
        and P = test_platform and mp = "\<lparr> mp_google_sub = ''B'', mp_google_event_id = ''g2'' \<rparr>"]
  have ea: "c_google_email (as_connection conn_A t) = ''A@x''" for t
    by (simp add: as_connection_def conn_A_def test_connection_def)
  have ce: "createEvent test_world ''tokA'' test_event =
              Inr \<lparr> wr_ok = True, wr_eventId = ''g1'', wr_title = ''t'', wr_start = Some ''a'',
                    wr_end = Some ''b'', wr_link = Some ''l'' \<rparr>"
    by (simp add: createEvent_def test_world_def ok_def test_event_resource_def or_opt_def or_null_def)
  have sa: "fst (broadcastCreateEvent_step test_world test_env test_clock ''1'' ''EVT-9'' test_event
                  (as_connection conn_A ''RA'') (r, st)) =
              push_success \<lparr> s_email = ''A@x'', s_eventId = Some ''g1'', s_link = Some ''l'',
                              s_note = None \<rparr> r" for r st
    by (simp add: broadcastCreateEvent_step_def test_access_token_A falsy_def or_null_def ce ea)
  from T [where r = "\<lparr> successes = [], failures = [], totalAccounts = 1 \<rparr>"]
  have 1: "fst (getValidAccessTokenForConnection test_world test_env test_clock
             (as_connection conn_B ''RB'') test_state) = Inr None"
    by simp
  from T [where uid = "''EVT-9''" and cs = "[as_connection conn_A ''RA'']"
            and r = "\<lparr> successes = [], failures = [], totalAccounts = 2 \<rparr>"]
  have 2: "fst (broadcastCreateEvent_loop test_world test_env test_clock ''1'' ''EVT-9'' test_event
        [as_connection conn_B ''RB'', as_connection conn_A ''RA'']
        (\<lparr> successes = [], failures = [], totalAccounts = 2 \<rparr>, test_state)) =
       \<lparr> successes = [\<lparr> s_email = ''A@x'', s_eventId = Some ''g1'', s_link = Some ''l'',
                          s_note = None \<rparr>],
         failures = [\<lparr> f_email = ''B@x'', f_reason = ''Token refresh failed'',
                         f_details = ''Please reconnect this account'' \<rparr>],
         totalAccounts = 2 \<rparr>"
    by (simp add: sa) (simp add: push_failure_def push_success_def em)
  from T [where uid = "''EVT-1''" and r = "\<lparr> successes = [], failures = [], totalAccounts = 1 \<rparr>"] g
  have 3: "failures (fst (broadcastDeleteEvent_loop test_platform test_world test_env test_clock ''1'' ''EVT-1''
        [\<lparr> mp_google_sub = ''B'', mp_google_event_id = ''g2'' \<rparr>]
        (\<lparr> successes = [], failures = [], totalAccounts = 1 \<rparr>, test_state))) =
       [\<lparr> f_email = ''B@x'', f_reason = ''Token refresh failed'',
          f_details = ''Mapping will remain until reconnected'' \<rparr>]"
    by (simp add: push_failure_def em)
  from refresh_rejection_isolated [OF test_needs_refresh_B h2, where st = test_state]
  have 4: "fst (getValidAccessTokenForConnection test_world test_env test_clock
             (as_connection conn_B ''RX'') test_state) = Inl (Error ''Token refresh failed: backend error'')"
    by (auto simp: ok_def)
  from test_needs_refresh_B h1 h2 g 1 2 3 4 show ?thesis by blast
qed

subsection \<open>The handshake token is issued without its marker\<close>

text \<open>
  Claim C2 says that the first verification of a token issued by \<open>generateOAuthUrl\<close>
  succeeds. \<open>generateOAuthUrl\<close> leaves the store as it was, so the marker
  \<^verbatim>\<open>oauth_state:<state>\<close> that \<open>handleOAuthCallback\<close> requires is not there: the first
  verification of the issued token, whose signature is valid, raises.
\<close>

theorem issued_state_first_verification_fails:
  "snd (generateOAuthUrl test_platform test_env test_clock ''1'' ''7'' ''private'' test_state) = test_state
   \<and> fst (parseAndVerifyState test_platform
            (issued_state test_platform test_env test_clock ''1'' ''7'' ''private'')
            (state_secret test_env) test_state) =
       Some \<lparr> sd_chatId = Some 1, sd_initiatedBy = Some 7, sd_chatType = ''private'', sd_nonce = ''u'' \<rparr>
   \<and> handleOAuthCallback test_platform test_world test_env test_clock ''code''
        (issued_state test_platform test_env test_clock ''1'' ''7'' ''private'') test_state =
       (Inl (Error ''Invalid or expired authorization state''), test_state)"
proof -
  have p: "parseAndVerifyState test_platform
            (issued_state test_platform test_env test_clock ''1'' ''7'' ''private'')
            (state_secret test_env) test_state =
       (Some \<lparr> sd_chatId = parseInt test_platform ''1'', sd_initiatedBy = parseInt test_platform ''7'',
                sd_chatType = ''private'', sd_nonce = random_uuid test_clock \<rparr>, test_state)"
    by (rule parseAndVerifyState_issued [OF test_platform_base64]) (simp_all add: test_clock_def)
  have m: "kv_get (oauth_state test_state) k = None" for k
    by (simp add: test_state_def kv_get_def)
  have 1: "snd (generateOAuthUrl test_platform test_env test_clock ''1'' ''7'' ''private'' test_state) = test_state"
    by (simp add: generateOAuthUrl_def Let_def)
  have 2: "fst (parseAndVerifyState test_platform
            (issued_state test_platform test_env test_clock ''1'' ''7'' ''private'')
            (state_secret test_env) test_state) =
       Some \<lparr> sd_chatId = Some 1, sd_initiatedBy = Some 7, sd_chatType = ''private'', sd_nonce = ''u'' \<rparr>"
    by (simp add: p) (simp add: test_platform_def test_clock_def)
  have 3: "handleOAuthCallback test_platform test_world test_env test_clock ''code''
        (issued_state test_platform test_env test_clock ''1'' ''7'' ''private'') test_state =
       (Inl (Error ''Invalid or expired authorization state''), test_state)"
    by (simp add: handleOAuthCallback_def p m Let_def)
  from 1 2 3 show ?thesis by blast
qed

subsection \<open>The aggregate contract of a broadcast\<close>




subsection \<open>Encryption round trip\<close>





subsection \<open>A connection without a cached credential is not refreshed\<close>

text \<open>
  Claim C5 says that a connection whose cached access credential is absent is refreshed.
  The record that \<open>storeGoogleConnection\<close> writes has neither \<open>access_token\<close> nor
  \<open>expires_at\<close>; for it the guard of \<open>getValidAccessTokenForConnection\<close> is false, no
  refresh is made although the token endpoint would accept the refresh credential, and
  \<^verbatim>\<open>null\<close> is returned: a create broadcast on the newly linked workspace reports
  \<^verbatim>\<open>Token refresh failed\<close>.
\<close>

theorem new_connection_is_not_refreshed:
  "token_endpoint test_world (refresh_params test_env ''RA'') = Response 200 [] test_token_json
   \<and> (\<exists>c st1.
         storeGoogleConnection test_platform test_env test_clock
           ''2'' ''N'' ''n@x'' ''RA'' ''sc'' ''7'' test_state = (Inr (), st1)
       \<and> getGoogleConnection test_platform test_env ''2'' ''N'' st1 = (Some c, st1)
       \<and> c_refresh_token c = ''RA'' \<and> c_access_token c = None \<and> c_expires_at c = None
       \<and> getValidAccessTokenForConnection test_world test_env test_clock c st1 = (Inr None, st1)
       \<and> fst (broadcastCreateEvent test_platform test_world test_env test_clock ''2'' ''EVT-5''
                test_event st1) =
           Inr \<lparr> successes = [],
                 failures = [\<lparr> f_email = ''n@x'', f_reason = ''Token refresh failed'',
                               f_details = ''Please reconnect this account'' \<rparr>],
                 totalAccounts = 1 \<rparr>)"
proof -
  define st1 where "st1 = snd (storeGoogleConnection test_platform test_env test_clock
                 ''2'' ''N'' ''n@x'' ''RA'' ''sc'' ''7'' test_state)"
  define d where "d = \<lparr> chat_id = ''2'', google_sub = ''N'', google_email = ''n@x'',
                   refresh_token_enc = test_ciphertext ''RA'', scopes = ''sc'',
                   revoked = False, connected_by_telegram_user_id = ''7'',
                   created_at = ''T1'', updated_at = ''T1'',
                   access_token = None, expires_at = None \<rparr>"
  have iv: "random_iv test_clock = ''123456789012''"
    by (simp add: test_clock_def)
  have enc: "encryptToken test_platform test_env (random_iv test_clock) ''RA'' = Inr (test_ciphertext ''RA'')"
    unfolding iv by (rule test_encrypt)
  have res: "storeGoogleConnection test_platform test_env test_clock
               ''2'' ''N'' ''n@x'' ''RA'' ''sc'' ''7'' test_state = (Inr (), st1)"
    unfolding st1_def storeGoogleConnection_def Let_def enc by simp
  have g1: "gconn st1 = gconn test_state @ [(''gconn:2:N'', d)]"
    unfolding st1_def storeGoogleConnection_def Let_def enc d_def
    by (simp add: gconn_key_def test_state_def) (simp add: test_platform_def test_clock_def)
  have get: "kv_get (gconn st1) ''gconn:2:N'' = Some d"
    by (simp add: g1 kv_get_def test_state_def)
  have lst: "kv_list (gconn_prefix ''2'') (gconn st1) = [''gconn:2:N'']"
    by (simp add: g1 kv_list_def matching_keys_def KV_LIST_LIMIT_def gconn_prefix_def test_state_def)
  have df: "refresh_token_enc d = test_ciphertext ''RA''" "\<not> revoked d"
    by (simp_all add: d_def)
  let ?c = "as_connection d ''RA''"
  have gc: "getGoogleConnection test_platform test_env ''2'' ''N'' st1 = (Some ?c, st1)"
    by (simp add: getGoogleConnection_def gconn_key_def get df test_decrypt)
  have cf: "c_refresh_token ?c = ''RA''" "c_access_token ?c = None" "c_expires_at ?c = None"
           "c_google_email ?c = ''n@x''"
    by (simp_all add: as_connection_def d_def)
  have gv: "getValidAccessTokenForConnection test_world test_env test_clock ?c st = (Inr None, st)" for st
    by (simp add: getValidAccessToken_no_expiry cf or_null_def)
  have wc: "getWorkspaceConnections test_platform test_env ''2'' st1 = ([?c], st1)"
    by (simp add: getWorkspaceConnections_def lst get df test_decrypt)
  have bc: "fst (broadcastCreateEvent test_platform test_world test_env test_clock ''2'' ''EVT-5''
                test_event st1) =
           Inr \<lparr> successes = [],
                 failures = [\<lparr> f_email = ''n@x'', f_reason = ''Token refresh failed'',
                               f_details = ''Please reconnect this account'' \<rparr>],
                 totalAccounts = 1 \<rparr>"
    by (simp add: broadcastCreateEvent_def wc broadcastCreateEvent_step_def gv falsy_def or_null_def
          push_failure_def cf)
  from gc cf gv bc res test_token_endpoint(1) show ?thesis by blast
qed

subsection \<open>A remote 404 on delete\<close>

text \<open>
  Claim C6 says that a delete answered 404 counts as succeeded and removes the mapping.
  \<open>deleteEvent\<close> raises on 404 with the message \<^verbatim>\<open>Calendar API error: <body>\<close>, and the
  handler of \<open>broadcastDeleteEvent\<close> looks for the text \<^verbatim>\<open>404\<close> or \<^verbatim>\<open>410\<close> in that
  message, which holds the body and not the status: for a 404 answered with the body
  \<^verbatim>\<open>Not Found\<close> the account is counted as failed and its mapping stays.
\<close>

theorem delete_not_found_counted_as_failure:
  "getEventMappings ''1'' ''EVT-2'' test_state =
     [\<lparr> mp_google_sub = ''A'', mp_google_event_id = ''gone'' \<rparr>]
   \<and> calendar_delete test_world ''tokA'' ''gone'' = Response 404 ''Not Found'' ()
   \<and> fst (broadcastDeleteEvent test_platform test_world test_env test_clock ''1'' ''EVT-2'' test_state) =
       Inr \<lparr> successes = [],
             failures = [\<lparr> f_email = ''(A)'', f_reason = ''Exception'',
                           f_details = ''Calendar API error: Not Found'' \<rparr>],
             totalAccounts = 1 \<rparr>
   \<and> getEventMappings ''1'' ''EVT-2''
        (snd (broadcastDeleteEvent test_platform test_world test_env test_clock ''1'' ''EVT-2'' test_state)) =
       [\<lparr> mp_google_sub = ''A'', mp_google_event_id = ''gone'' \<rparr>]"
proof -
  have r: "calendar_delete test_world ''tokA'' ''gone'' = Response 404 ''Not Found'' ()"
    by (simp add: test_world_def)
  have de: "deleteEvent test_world ''tokA'' ''gone'' = Inl (Error ''Calendar API error: Not Found'')"
    using deleteEvent_not_found [OF r] by simp
  have inc: "\<not> str_includes ''Calendar API error: Not Found'' ''404''"
            "\<not> str_includes ''Calendar API error: Not Found'' ''410''"
    by simp_all
  have nr: "\<not> c_revoked (as_connection conn_A ''RA'')"
    by (simp add: as_connection_def test_conn_fields)
  have b: "broadcastDeleteEvent test_platform test_world test_env test_clock ''1'' ''EVT-2'' test_state =
       (Inr \<lparr> successes = [],
             failures = [\<lparr> f_email = ''(A)'', f_reason = ''Exception'',
                           f_details = ''Calendar API error: Not Found'' \<rparr>],
             totalAccounts = 1 \<rparr>,
        log_error ''Failed to delete event for mapping A:'' test_state)"
    by (simp add: broadcastDeleteEvent_def test_getEventMappings broadcastDeleteEvent_step_def
          test_getGoogleConnection_A test_access_token_A falsy_def or_null_def de inc
          push_failure_def Let_def nr)
  have m: "getEventMappings ''1'' ''EVT-2'' (log_error ''Failed to delete event for mapping A:'' test_state) =
       [\<lparr> mp_google_sub = ''A'', mp_google_event_id = ''gone'' \<rparr>]"
    by (simp add: getEventMappings_emap_cong [of _ test_state] log_error_def test_getEventMappings)
  from r b m test_getEventMappings(2) show ?thesis by simp
qed

subsection \<open>Upsert of a connection\<close>



subsection \<open>Listing the active connections\<close>


subsection \<open>Cascade removal on disconnect\<close>


subsection \<open>Frame of the access-token update\<close>

text \<open>
  Claim C10. On an existing record \<open>updateConnectionAccessToken\<close> sets \<open>access_token\<close>,
  \<open>expires_at\<close> and \<open>updated_at\<close> and leaves every other field of the record, every other
  key and the other tables as they were; when the record is absent it raises and the state
  is unchanged.
\<close>

theorem updateConnectionAccessToken_frame:
  "(case kv_get (gconn st) (gconn_key chatId googleSub) of
      None \<Rightarrow>
        updateConnectionAccessToken ck chatId googleSub accessToken expiresAt st =
          (Inl (Error (''Connection not found: '' @ gconn_key chatId googleSub)), st)
    | Some d \<Rightarrow>
        (\<exists>d' st'.
           updateConnectionAccessToken ck chatId googleSub accessToken expiresAt st = (Inr (), st')
         \<and> kv_get (gconn st') (gconn_key chatId googleSub) = Some d'
         \<and> access_token d' = Some accessToken \<and> expires_at d' = Some expiresAt
         \<and> updated_at d' = now_iso ck
         \<and> refresh_token_enc d' = refresh_token_enc d \<and> revoked d' = revoked d
         \<and> google_email d' = google_email d \<and> scopes d' = scopes d
         \<and> connected_by_telegram_user_id d' = connected_by_telegram_user_id d
         \<and> created_at d' = created_at d \<and> chat_id d' = chat_id d \<and> google_sub d' = google_sub d
         \<and> (\<forall>k. k \<noteq> gconn_key chatId googleSub \<longrightarrow> kv_get (gconn st') k = kv_get (gconn st) k)
         \<and> (\<forall>p. kv_list p (gconn st') = kv_list p (gconn st))
         \<and> emap st' = emap st \<and> oauth_state st' = oauth_state st
         \<and> console_error st' = console_error st))"
  by (auto simp: updateConnectionAccessToken_def Let_def kv_get_put kv_list_put_existing
           split: option.splits)

theorem updateConnectionAccessToken_frame_witness:
  "kv_get (gconn test_state) (gconn_key ''1'' ''A'') = Some conn_A
   \<and> (\<exists>d' st'.
         updateConnectionAccessToken test_clock ''1'' ''A'' ''fresh'' 4600000 test_state = (Inr (), st')
       \<and> kv_get (gconn st') (gconn_key ''1'' ''A'') = Some d'
       \<and> access_token d' = Some ''fresh'' \<and> expires_at d' = Some 4600000
       \<and> refresh_token_enc d' = refresh_token_enc conn_A \<and> revoked d' = revoked conn_A
       \<and> (\<forall>k. k \<noteq> gconn_key ''1'' ''A'' \<longrightarrow> kv_get (gconn st') k = kv_get (gconn test_state) k))
   \<and> kv_get (gconn test_state) (gconn_key ''1'' ''Z'') = None
   \<and> updateConnectionAccessToken test_clock ''1'' ''Z'' ''fresh'' 4600000 test_state =
       (Inl (Error (''Connection not found: '' @ gconn_key ''1'' ''Z'')), test_state)"
proof -
  have h: "kv_get (gconn test_state) (gconn_key ''1'' ''A'') = Some conn_A"
    by (simp add: test_gconn_get gconn_key_def)
  have z: "kv_get (gconn test_state) (gconn_key ''1'' ''Z'') = None"
    by (simp add: test_state_def gconn_key_def kv_get_def)
  from updateConnectionAccessToken_frame [where st = test_state and chatId = "''1''" and googleSub = "''A''" and ck = test_clock and accessToken = "''fresh''" and expiresAt = 4600000]
  have A: "\<exists>d' st'.
         updateConnectionAccessToken test_clock ''1'' ''A'' ''fresh'' 4600000 test_state = (Inr (), st')
       \<and> kv_get (gconn st') (gconn_key ''1'' ''A'') = Some d'
       \<and> access_token d' = Some ''fresh'' \<and> expires_at d' = Some 4600000
       \<and> refresh_token_enc d' = refresh_token_enc conn_A \<and> revoked d' = revoked conn_A
       \<and> (\<forall>k. k \<noteq> gconn_key ''1'' ''A'' \<longrightarrow> kv_get (gconn st') k = kv_get (gconn test_state) k)"
    unfolding h option.case by blast
  from updateConnectionAccessToken_frame [where st = test_state and chatId = "''1''" and googleSub = "''Z''" and ck = test_clock and accessToken = "''fresh''" and expiresAt = 4600000]
  have Z: "updateConnectionAccessToken test_clock ''1'' ''Z'' ''fresh'' 4600000 test_state =
       (Inl (Error (''Connection not found: '' @ gconn_key ''1'' ''Z'')), test_state)"
    unfolding z option.case .
  from h z A Z show ?thesis by blast
qed

end
